theory Spec2Isabelle
  imports Complex_Main "HOL-Library.Sublist"
begin

section \<open>Python values, exceptions and the task monad\<close>

text \<open>
  The DAG file \<^verbatim>\<open>dags/postgres_dwh_pipeline.py\<close> talks to the warehouse through
  a \<^verbatim>\<open>PostgresHook\<close> and reports through \<^verbatim>\<open>print\<close> and exceptions. A Python
  \<^verbatim>\<open>str\<close> is modelled by its UTF-8 bytes, so a non-ASCII symbol is several
  characters. A cell of a result row is \<^verbatim>\<open>None\<close> (SQL NULL), an \<^verbatim>\<open>int\<close>
  (\<^verbatim>\<open>COUNT(*)\<close>), a finite \<^verbatim>\<open>Decimal\<close> (a \<^verbatim>\<open>numeric\<close> column: unscaled value
  and number of fractional digits) or a \<^verbatim>\<open>str\<close>.
\<close>

datatype pyval = PNone | PInt int | PDec int nat | PStr string

datatype exn =
    AirflowException string
  | FileNotFoundError string
  | OSError string
  | UnicodeDecodeError string
  | TypeError string
  | DatabaseError string

record 'db world =
  db :: 'db
  stdout :: "string list"

type_synonym ('db, 'a) prog = "'db world \<Rightarrow> (exn + 'a) \<times> 'db world"

text \<open>
  The part of \<^verbatim>\<open>PostgresHook\<close> the DAG uses. \<^verbatim>\<open>run\<close> executes a command and
  \<^verbatim>\<open>get_first\<close> returns the first row of a query, or \<^verbatim>\<open>None\<close> when there is no
  row; both may raise and both may change the backend.
\<close>

record 'db postgres_hook =
  run :: "string \<Rightarrow> 'db \<Rightarrow> (exn + unit) \<times> 'db"
  get_first :: "string \<Rightarrow> 'db \<Rightarrow> (exn + pyval list option) \<times> 'db"

definition return :: "'a \<Rightarrow> ('db, 'a) prog" where
  "return x w = (Inr x, w)"

definition raise :: "exn \<Rightarrow> ('db, 'a) prog" where
  "raise e w = (Inl e, w)"

definition bind :: "('db, 'a) prog \<Rightarrow> ('a \<Rightarrow> ('db, 'b) prog) \<Rightarrow> ('db, 'b) prog" where
  "bind m f w = (case m w of (Inl e, w') \<Rightarrow> (Inl e, w') | (Inr x, w') \<Rightarrow> f x w')"

text \<open>A sequence of statements: the first exception ends it.\<close>

fun block :: "('db, unit) prog list \<Rightarrow> ('db, unit) prog" where
  "block [] w = (Inr (), w)"
| "block (m # ms) w = (case m w of (Inl e, w') \<Rightarrow> (Inl e, w') | (Inr _, w') \<Rightarrow> block ms w')"

definition print :: "string \<Rightarrow> ('db, unit) prog" where
  "print line w = (Inr (), w\<lparr>stdout := stdout w @ [line]\<rparr>)"

definition hook_run :: "'db postgres_hook \<Rightarrow> string \<Rightarrow> ('db, unit) prog" where
  "hook_run pg_hook sql w = (case run pg_hook sql (db w) of (r, d) \<Rightarrow> (r, w\<lparr>db := d\<rparr>))"

definition hook_get_first :: "'db postgres_hook \<Rightarrow> string \<Rightarrow> ('db, pyval list option) prog" where
  "hook_get_first pg_hook sql w =
     (case get_first pg_hook sql (db w) of (r, d) \<Rightarrow> (r, w\<lparr>db := d\<rparr>))"

subsection \<open>Formatting and comparing values\<close>

definition digit_char :: "nat \<Rightarrow> char" where
  "digit_char n = ''0123456789'' ! n"

fun str_nat :: "nat \<Rightarrow> string" where
  "str_nat n = (if n < 10 then [digit_char n] else str_nat (n div 10) @ [digit_char (n mod 10)])"

declare str_nat.simps [simp del]

definition str_int :: "int \<Rightarrow> string" where
  "str_int i = (if i < 0 then ''-'' @ str_nat (nat (- i)) else str_nat (nat i))"

text \<open>
  \<^verbatim>\<open>Decimal.__str__\<close> for a finite decimal with coefficient \<open>c\<close> and exponent
  \<open>- s\<close>: plain notation while the leftmost digit is at most six places behind the
  point, scientific notation otherwise.
\<close>

definition str_decimal :: "int \<Rightarrow> nat \<Rightarrow> string" where
  "str_decimal c s =
     (let sign = (if c < 0 then ''-'' else '''');
          ds = str_nat (nat \<bar>c\<bar>);
          leftdigits = int (length ds) - int s;
          dotplace = (if leftdigits > - 6 then leftdigits else 1);
          intpart = (if dotplace \<le> 0 then ''0''
                     else if dotplace \<ge> int (length ds)
                       then ds @ replicate (nat (dotplace - int (length ds))) (CHR ''0'')
                     else take (nat dotplace) ds);
          fracpart = (if dotplace \<le> 0 then ''.'' @ replicate (nat (- dotplace)) (CHR ''0'') @ ds
                      else if dotplace \<ge> int (length ds) then ''''
                      else ''.'' @ drop (nat dotplace) ds);
          exp = (if leftdigits = dotplace then ''''
                 else ''E'' @ (if leftdigits - dotplace \<ge> 0 then ''+'' else '''')
                          @ str_int (leftdigits - dotplace))
      in sign @ intpart @ fracpart @ exp)"

fun py_str :: "pyval \<Rightarrow> string" where
  "py_str PNone = ''None''"
| "py_str (PInt i) = str_int i"
| "py_str (PDec c s) = str_decimal c s"
| "py_str (PStr t) = t"

definition dec_val :: "int \<Rightarrow> nat \<Rightarrow> rat" where
  "dec_val c s = of_int c / 10 ^ s"

text \<open>\<^verbatim>\<open>actual_value != expected_value\<close> with an \<^verbatim>\<open>int\<close> on the right. It never raises.\<close>

fun py_ne_int :: "pyval \<Rightarrow> int \<Rightarrow> bool" where
  "py_ne_int PNone e = True"
| "py_ne_int (PInt a) e = (a \<noteq> e)"
| "py_ne_int (PDec c s) e = (dec_val c s \<noteq> of_int e)"
| "py_ne_int (PStr t) e = True"

text \<open>
  \<^verbatim>\<open>completeness < 95.0\<close>: the right operand is a \<^verbatim>\<open>float\<close> whose value is the
  given rational. Numbers are compared by value; \<^verbatim>\<open>None\<close> and \<^verbatim>\<open>str\<close> raise.
\<close>

fun py_lt_float :: "pyval \<Rightarrow> rat \<Rightarrow> exn + bool" where
  "py_lt_float PNone f =
     Inl (TypeError ([CHR 0x27] @ ''<'' @ [CHR 0x27]
        @ '' not supported between instances of '' @ [CHR 0x27] @ ''NoneType'' @ [CHR 0x27]
        @ '' and '' @ [CHR 0x27] @ ''float'' @ [CHR 0x27]))"
| "py_lt_float (PInt a) f = Inr (of_int a < f)"
| "py_lt_float (PDec c s) f = Inr (dec_val c s < f)"
| "py_lt_float (PStr t) f =
     Inl (TypeError ([CHR 0x27] @ ''<'' @ [CHR 0x27]
        @ '' not supported between instances of '' @ [CHR 0x27] @ ''str'' @ [CHR 0x27]
        @ '' and '' @ [CHR 0x27] @ ''float'' @ [CHR 0x27]))"

text \<open>\<^verbatim>\<open>result[0] if result else default\<close>: \<^verbatim>\<open>None\<close> and the empty tuple are falsy.\<close>

fun first_or :: "pyval list option \<Rightarrow> pyval \<Rightarrow> pyval" where
  "first_or None d = d"
| "first_or (Some []) d = d"
| "first_or (Some (v # vs)) d = v"

subsection \<open>Symbols used in the messages (UTF-8)\<close>

definition arrow :: string where
  "arrow = [CHR 0xE2, CHR 0x86, CHR 0x92]"

definition check_mark :: string where
  "check_mark = [CHR 0xE2, CHR 0x9C, CHR 0x93]"

definition cross_mark :: string where
  "cross_mark = [CHR 0xE2, CHR 0x9D, CHR 0x8C]"

definition ballot_x :: string where
  "ballot_x = [CHR 0xE2, CHR 0x9C, CHR 0x97]"

section \<open>Helper functions\<close>

text \<open>
  \<^verbatim>\<open>run_quality_assertion(pg_hook, test_name, query, expected_value=0)\<close>. The last
  argument is \<open>None\<close> when the caller omits it.
\<close>

definition run_quality_assertion ::
  "'db postgres_hook \<Rightarrow> string \<Rightarrow> string \<Rightarrow> int option \<Rightarrow> ('db, unit) prog" where
  "run_quality_assertion pg_hook test_name query expected_value_arg =
     (let expected_value = (case expected_value_arg of None \<Rightarrow> 0 | Some e \<Rightarrow> e) in
      bind (print (''  '' @ arrow @ '' Running: '' @ test_name)) (\<lambda>_.
      bind (hook_get_first pg_hook query) (\<lambda>result.
      let actual_value = first_or result PNone in
      if actual_value = PNone then
        raise (AirflowException (cross_mark @ '' '' @ test_name @ '': Query returned NULL''))
      else if py_ne_int actual_value expected_value then
        raise (AirflowException (cross_mark @ '' '' @ test_name @ '' FAILED: Expected ''
                 @ str_int expected_value @ '', got '' @ py_str actual_value))
      else
        print (''    '' @ check_mark @ '' PASS: '' @ py_str actual_value
                 @ '' (expected: '' @ str_int expected_value @ '')''))))"

text \<open>
  \<^verbatim>\<open>read_sql_file(file_path)\<close>. The file system is the parameter \<open>files\<close>: for a
  path it gives what \<^verbatim>\<open>open(file_path, "r", encoding="utf-8")\<close> followed by
  \<^verbatim>\<open>read()\<close> gives, either the exception raised or the text read (decoded, with
  line ends translated). Only \<^verbatim>\<open>FileNotFoundError\<close> is caught; any other exception
  leaves the function as it is.
\<close>

definition basename :: "string \<Rightarrow> string" where
  "basename p = rev (takeWhile (\<lambda>c. c \<noteq> CHR ''/'') (rev p))"

definition read_sql_file :: "(string \<Rightarrow> exn + string) \<Rightarrow> string \<Rightarrow> ('db, string) prog" where
  "read_sql_file files file_path =
     (case files file_path of
        Inr sql_content \<Rightarrow>
          bind (print (check_mark @ '' Successfully loaded: '' @ basename file_path)) (\<lambda>_.
          return sql_content)
      | Inl (FileNotFoundError _) \<Rightarrow>
          (let error_msg = ballot_x @ '' CRITICAL: SQL file not found at '' @ file_path in
           bind (print error_msg) (\<lambda>_.
           raise (FileNotFoundError error_msg)))
      | Inl e \<Rightarrow> raise e)"

section \<open>Configuration constants\<close>

text \<open>\<^verbatim>\<open>os.path.join\<close> of the container (POSIX) and \<^verbatim>\<open>str.replace\<close> of one character.\<close>

definition path_join :: "string \<Rightarrow> string \<Rightarrow> string" where
  "path_join a b =
     (if b \<noteq> [] \<and> hd b = CHR ''/'' then b
      else if a = [] \<or> last a = CHR ''/'' then a @ b
      else a @ ''/'' @ b)"

definition replace_char :: "char \<Rightarrow> char \<Rightarrow> string \<Rightarrow> string" where
  "replace_char old new s = map (\<lambda>c. if c = old then new else c) s"

definition POSTGRES_CONN_ID :: string where
  "POSTGRES_CONN_ID = ''postgres_dw''"

definition WINDOWS_PROJECT_ROOT :: string where
  "WINDOWS_PROJECT_ROOT =
     ''C:'' @ [CHR 0x5C] @ ''Users'' @ [CHR 0x5C] @ ''vlado'' @ [CHR 0x5C] @ ''Desktop''
     @ [CHR 0x5C] @ ''SQL-project-last'' @ [CHR 0x5C] @ ''SQL-Data-Warehouse-Project''"

definition WINDOWS_DATASETS_PATH :: string where
  "WINDOWS_DATASETS_PATH = path_join WINDOWS_PROJECT_ROOT ''data_sets''"

definition CRM_PATH :: string where
  "CRM_PATH = path_join WINDOWS_DATASETS_PATH ''source_crm''"

definition ERP_PATH :: string where
  "ERP_PATH = path_join WINDOWS_DATASETS_PATH ''source_erp''"

definition CONTAINER_PROJECT_ROOT :: string where
  "CONTAINER_PROJECT_ROOT = ''/opt/airflow/project_root''"

definition SQL_SCRIPTS_DIR :: string where
  "SQL_SCRIPTS_DIR = path_join CONTAINER_PROJECT_ROOT ''scripts''"

definition SQL_TESTS_DIR :: string where
  "SQL_TESTS_DIR = path_join CONTAINER_PROJECT_ROOT ''tests''"

section \<open>The tasks of the DAG\<close>

text \<open>
  Every task builds its hook with \<^verbatim>\<open>PostgresHook(postgres_conn_id=POSTGRES_CONN_ID)\<close>;
  the constructor is the parameter \<open>PostgresHook\<close>.
\<close>

definition load_bronze_task :: "(string \<Rightarrow> 'db postgres_hook) \<Rightarrow> ('db, unit) prog" where
  "load_bronze_task PostgresHook =
     (let pg_hook = PostgresHook POSTGRES_CONN_ID;
          crm_path_postgres = replace_char (CHR 0x5C) (CHR ''/'') CRM_PATH @ ''/'';
          erp_path_postgres = replace_char (CHR 0x5C) (CHR ''/'') ERP_PATH @ ''/'';
          sql_command = ''CALL bronze.load_bronze('' @ [CHR 0x27] @ crm_path_postgres
            @ [CHR 0x27] @ '', '' @ [CHR 0x27] @ erp_path_postgres @ [CHR 0x27] @ '');''
      in block
        [print ([CHR 0xF0, CHR 0x9F, CHR 0x93, CHR 0xA6] @ '' Executing Bronze Layer Load...''),
         print (''   CRM Path: '' @ crm_path_postgres),
         print (''   ERP Path: '' @ erp_path_postgres),
         hook_run pg_hook sql_command,
         print (check_mark @ '' Bronze layer loaded successfully'')])"

definition load_silver_task :: "(string \<Rightarrow> 'db postgres_hook) \<Rightarrow> ('db, unit) prog" where
  "load_silver_task PostgresHook =
     (let pg_hook = PostgresHook POSTGRES_CONN_ID;
          sql_command = ''CALL silver.load_silver();''
      in block
        [print ([CHR 0xF0, CHR 0x9F, CHR 0x94, CHR 0x84]
                  @ '' Executing Silver Layer Transformation...''),
         hook_run pg_hook sql_command,
         print (check_mark @ '' Silver layer loaded successfully'')])"

subsection \<open>Silver quality gate\<close>

definition silver_duplicate_customers_query :: string where
  "silver_duplicate_customers_query =
     [CHR 0x0A] @ ''            SELECT COUNT(*) FROM ('' @ [CHR 0x0A]
     @ ''                SELECT cst_id, COUNT(*) '' @ [CHR 0x0A]
     @ ''                FROM silver.crm_cust_info '' @ [CHR 0x0A]
     @ ''                GROUP BY cst_id '' @ [CHR 0x0A]
     @ ''                HAVING COUNT(*) > 1'' @ [CHR 0x0A] @ ''            ) duplicates;''
     @ [CHR 0x0A] @ ''            ''"

definition silver_null_customer_ids_query :: string where
  "silver_null_customer_ids_query =
     ''SELECT COUNT(*) FROM silver.crm_cust_info WHERE cst_id IS NULL;''"

definition silver_duplicate_products_query :: string where
  "silver_duplicate_products_query =
     [CHR 0x0A] @ ''            SELECT COUNT(*) FROM ('' @ [CHR 0x0A]
     @ ''                SELECT prd_id, COUNT(*) '' @ [CHR 0x0A]
     @ ''                FROM silver.crm_prd_info '' @ [CHR 0x0A]
     @ ''                GROUP BY prd_id '' @ [CHR 0x0A]
     @ ''                HAVING COUNT(*) > 1'' @ [CHR 0x0A] @ ''            ) duplicates;''
     @ [CHR 0x0A] @ ''            ''"

text \<open>The statements of the task body, in program order, with the hook already built.\<close>

definition check_silver_quality_body :: "'db postgres_hook \<Rightarrow> ('db, unit) prog list" where
  "check_silver_quality_body pg_hook =
     [print ([CHR 0xF0, CHR 0x9F, CHR 0x94, CHR 0x8D]
               @ '' Executing Silver Layer Quality Assertions...''),
      print (replicate 60 (CHR ''='')),
      run_quality_assertion pg_hook ''No duplicate customers in silver.crm_cust_info''
        silver_duplicate_customers_query (Some 0),
      run_quality_assertion pg_hook ''No NULL customer IDs in silver.crm_cust_info''
        silver_null_customer_ids_query (Some 0),
      run_quality_assertion pg_hook ''No duplicate products in silver.crm_prd_info''
        silver_duplicate_products_query (Some 0),
      print (replicate 60 (CHR ''='')),
      print (check_mark @ '' All Silver quality assertions passed'')]"

definition check_silver_quality_task :: "(string \<Rightarrow> 'db postgres_hook) \<Rightarrow> ('db, unit) prog" where
  "check_silver_quality_task PostgresHook =
     (let pg_hook = PostgresHook POSTGRES_CONN_ID
      in block (check_silver_quality_body pg_hook))"

subsection \<open>Gold views\<close>

definition create_gold_views_task ::
  "(string \<Rightarrow> 'db postgres_hook) \<Rightarrow> (string \<Rightarrow> exn + string) \<Rightarrow> ('db, unit) prog" where
  "create_gold_views_task PostgresHook files =
     (let pg_hook = PostgresHook POSTGRES_CONN_ID;
          gold_file_path = path_join (path_join SQL_SCRIPTS_DIR ''gold'') ''ddl_gold.sql''
      in bind (read_sql_file files gold_file_path) (\<lambda>sql_script.
         block
           [print ([CHR 0xE2, CHR 0xAD, CHR 0x90] @ '' Creating Gold Layer Views...''),
            hook_run pg_hook sql_script,
            print (check_mark @ '' Gold layer views created successfully'')]))"

subsection \<open>Gold quality gate\<close>

definition gold_null_customer_keys_query :: string where
  "gold_null_customer_keys_query =
     ''SELECT COUNT(*) FROM gold.dim_customers WHERE customer_key IS NULL;''"

definition gold_duplicate_customers_query :: string where
  "gold_duplicate_customers_query =
     [CHR 0x0A] @ ''            SELECT COUNT(*) FROM ('' @ [CHR 0x0A]
     @ ''                SELECT customer_id, COUNT(*) '' @ [CHR 0x0A]
     @ ''                FROM gold.dim_customers '' @ [CHR 0x0A]
     @ ''                GROUP BY customer_id '' @ [CHR 0x0A]
     @ ''                HAVING COUNT(*) > 1'' @ [CHR 0x0A] @ ''            ) duplicates;''
     @ [CHR 0x0A] @ ''            ''"

definition gold_null_product_keys_query :: string where
  "gold_null_product_keys_query =
     ''SELECT COUNT(*) FROM gold.dim_products WHERE product_key IS NULL;''"

definition gold_orphaned_products_query :: string where
  "gold_orphaned_products_query =
     [CHR 0x0A] @ ''            SELECT COUNT(*) '' @ [CHR 0x0A]
     @ ''            FROM gold.fact_sales f'' @ [CHR 0x0A]
     @ ''            WHERE f.product_key NOT IN ('' @ [CHR 0x0A]
     @ ''                SELECT product_key '' @ [CHR 0x0A]
     @ ''                FROM gold.dim_products '' @ [CHR 0x0A]
     @ ''                WHERE product_key IS NOT NULL'' @ [CHR 0x0A] @ ''            );''
     @ [CHR 0x0A] @ ''            ''"

definition gold_orphaned_customers_query :: string where
  "gold_orphaned_customers_query =
     [CHR 0x0A] @ ''            SELECT COUNT(*) '' @ [CHR 0x0A]
     @ ''            FROM gold.fact_sales f'' @ [CHR 0x0A]
     @ ''            WHERE f.customer_key NOT IN ('' @ [CHR 0x0A]
     @ ''                SELECT customer_key '' @ [CHR 0x0A]
     @ ''                FROM gold.dim_customers '' @ [CHR 0x0A]
     @ ''                WHERE customer_key IS NOT NULL'' @ [CHR 0x0A] @ ''            );''
     @ [CHR 0x0A] @ ''            ''"

definition gold_completeness_query :: string where
  "gold_completeness_query =
     [CHR 0x0A] @ ''            SELECT ROUND('' @ [CHR 0x0A]
     @ ''                100.0 * SUM(CASE WHEN product_key IS NOT NULL AND customer_key IS NOT NULL THEN 1 ELSE 0 END) ''
     @ [CHR 0x0A] @ ''                / NULLIF(COUNT(*), 0), '' @ [CHR 0x0A]
     @ ''                2'' @ [CHR 0x0A] @ ''            ) AS completeness_percentage''
     @ [CHR 0x0A] @ ''            FROM gold.fact_sales;'' @ [CHR 0x0A] @ ''        ''"

text \<open>
  The completeness check written inline at the end of \<^verbatim>\<open>check_gold_quality_task\<close>
  (allow up to 5% incomplete records).
\<close>

definition gold_completeness_check :: "'db postgres_hook \<Rightarrow> ('db, unit) prog" where
  "gold_completeness_check pg_hook =
     bind (print (''  '' @ arrow @ '' Checking: Data completeness (must be >= 95%)'')) (\<lambda>_.
     bind (hook_get_first pg_hook gold_completeness_query) (\<lambda>result.
     let completeness = first_or result (PInt 0) in
     case py_lt_float completeness 95 of
       Inl e \<Rightarrow> raise e
     | Inr True \<Rightarrow>
         raise (AirflowException (cross_mark @ '' Data completeness FAILED: ''
                  @ py_str completeness @ ''% (expected >= 95%)''))
     | Inr False \<Rightarrow>
         print (''    '' @ check_mark @ '' PASS: '' @ py_str completeness
                  @ ''% completeness (threshold: >= 95%)'')))"

text \<open>The statements of the task body, in program order, with the hook already built.\<close>

definition check_gold_quality_body :: "'db postgres_hook \<Rightarrow> ('db, unit) prog list" where
  "check_gold_quality_body pg_hook =
     [print ([CHR 0xF0, CHR 0x9F, CHR 0x94, CHR 0x8D]
               @ '' Executing Gold Layer Quality Assertions...''),
      print (replicate 60 (CHR ''='')),
      run_quality_assertion pg_hook ''No NULL customer keys in dim_customers''
        gold_null_customer_keys_query (Some 0),
      run_quality_assertion pg_hook ''No duplicate customers in dim_customers''
        gold_duplicate_customers_query (Some 0),
      run_quality_assertion pg_hook ''No NULL product keys in dim_products''
        gold_null_product_keys_query (Some 0),
      run_quality_assertion pg_hook ''No orphaned products in fact_sales''
        gold_orphaned_products_query (Some 0),
      run_quality_assertion pg_hook ''No orphaned customers in fact_sales''
        gold_orphaned_customers_query (Some 0),
      gold_completeness_check pg_hook,
      print (replicate 60 (CHR ''='')),
      print (check_mark @ '' All Gold quality assertions passed'')]"

definition check_gold_quality_task :: "(string \<Rightarrow> 'db postgres_hook) \<Rightarrow> ('db, unit) prog" where
  "check_gold_quality_task PostgresHook =
     (let pg_hook = PostgresHook POSTGRES_CONN_ID
      in block (check_gold_quality_body pg_hook))"

section \<open>The pipeline executor\<close>

datatype status = Pending | Running | Succeeded | Failed exn | Skipped

datatype terminal = Completed | Aborted nat exn

record run_report =
  statuses :: "status list"
  outcome :: terminal

text \<open>
  Modelled from the spec: the scheduler that executes the chain
  \<^verbatim>\<open>bronze >> silver >> silver_qc >> gold >> gold_qc\<close> is Airflow's and is not part of
  the repository. Section 4.3 of the specification gives its loop: all stages start
  \<open>Pending\<close>; the current one is marked \<open>Running\<close> and invoked; on success it becomes
  \<open>Succeeded\<close> and the next one is taken; on failure it becomes \<open>Failed\<close>, every
  remaining stage is marked \<open>Skipped\<close> and the run ends \<open>Aborted\<close> at this stage with
  its cause; when the stages are used up the run ends \<open>Completed\<close>. Stages are counted
  from 0.
\<close>

definition mark_skipped :: "nat \<Rightarrow> status list \<Rightarrow> status list" where
  "mark_skipped i sts = take i sts @ replicate (length sts - i) Skipped"

function execute_from ::
  "('db, unit) prog list \<Rightarrow> nat \<Rightarrow> status list \<Rightarrow> 'db world \<Rightarrow> run_report \<times> 'db world" where
  "execute_from stages i sts w =
     (if length stages \<le> i then (\<lparr>statuses = sts, outcome = Completed\<rparr>, w)
      else
        (let running = sts[i := Running] in
         case (stages ! i) w of
           (Inr _, w') \<Rightarrow> execute_from stages (Suc i) (running[i := Succeeded]) w'
         | (Inl cause, w') \<Rightarrow>
             (\<lparr>statuses = mark_skipped (Suc i) (running[i := Failed cause]),
               outcome = Aborted i cause\<rparr>, w')))"
  by pat_completeness auto
termination
  by (relation "measure (\<lambda>(stages, i, sts, w). length stages - i)") auto

declare execute_from.simps [simp del]

definition execute :: "('db, unit) prog list \<Rightarrow> 'db world \<Rightarrow> run_report \<times> 'db world" where
  "execute stages w = execute_from stages 0 (replicate (length stages) Pending) w"

text \<open>The task dependencies of the DAG: one chain, in this order.\<close>

definition pipeline_stages ::
  "(string \<Rightarrow> 'db postgres_hook) \<Rightarrow> (string \<Rightarrow> exn + string) \<Rightarrow> ('db, unit) prog list" where
  "pipeline_stages PostgresHook files =
     (let bronze = load_bronze_task PostgresHook;
          silver = load_silver_task PostgresHook;
          silver_qc = check_silver_quality_task PostgresHook;
          gold = create_gold_views_task PostgresHook files;
          gold_qc = check_gold_quality_task PostgresHook
      in [bronze, silver, silver_qc, gold, gold_qc])"

definition sql_data_warehouse_pipeline_with_assertions ::
  "(string \<Rightarrow> 'db postgres_hook) \<Rightarrow> (string \<Rightarrow> exn + string) \<Rightarrow> 'db world
     \<Rightarrow> run_report \<times> 'db world" where
  "sql_data_warehouse_pipeline_with_assertions PostgresHook files =
     execute (pipeline_stages PostgresHook files)"

section \<open>Notions used to state the properties\<close>

text \<open>The number a result cell stands for, when it is a number.\<close>

fun scalar_value :: "pyval \<Rightarrow> rat option" where
  "scalar_value PNone = None"
| "scalar_value (PInt a) = Some (of_int a)"
| "scalar_value (PDec c s) = Some (dec_val c s)"
| "scalar_value (PStr t) = None"

text \<open>
  A hook for examples: its backend is the number of queries answered so far; the
  \<open>n\<close>-th query gets the \<open>n\<close>-th row of the script, and no row once the script is
  used up. Commands succeed and change nothing.
\<close>

definition scripted_hook :: "pyval list option list \<Rightarrow> nat postgres_hook" where
  "scripted_hook rows =
     \<lparr>run = (\<lambda>sql d. (Inr (), d)),
      get_first = (\<lambda>sql d. (Inr (if d < length rows then rows ! d else None), Suc d))\<rparr>"

definition fresh :: "nat world" where
  "fresh = \<lparr>db = 0, stdout = []\<rparr>"

text \<open>
  The ways a failure reason could name a comparator: the comparator names of the
  specification's data model and the usual operator spellings.
\<close>

definition comparator_renderings :: "string list" where
  "comparator_renderings =
     [''Equals'', ''GreaterOrEqual'', ''LessOrEqual'', ''equal'', ''=='', ''!='', ''>='', ''<='']"

definition mentions_comparator :: "string \<Rightarrow> bool" where
  "mentions_comparator msg = list_ex (\<lambda>c. sublist c msg) comparator_renderings"

text \<open>A connection registry that gives the same hook for every connection id.\<close>

definition connection :: "'db postgres_hook \<Rightarrow> string \<Rightarrow> 'db postgres_hook" where
  "connection pg_hook conn_id = pg_hook"

text \<open>
  Example runs. In the Silver gate the first count is 0 and the second is 2; in the Gold
  gate the five counts are 0 and the completeness query returns the given row.
\<close>

definition silver_two_duplicates :: "nat postgres_hook" where
  "silver_two_duplicates = scripted_hook [Some [PInt 0], Some [PInt 2]]"

definition silver_before_failure :: "nat world" where
  "silver_before_failure =
     \<lparr>db = 1,
      stdout =
        [[CHR 0xF0, CHR 0x9F, CHR 0x94, CHR 0x8D] @ '' Executing Silver Layer Quality Assertions...'',
         replicate 60 (CHR ''=''),
         ''  '' @ arrow @ '' Running: No duplicate customers in silver.crm_cust_info'',
         ''    '' @ check_mark @ '' PASS: 0 (expected: 0)'']\<rparr>"

definition silver_at_failure :: "nat world" where
  "silver_at_failure =
     \<lparr>db = 2,
      stdout = stdout silver_before_failure
        @ [''  '' @ arrow @ '' Running: No NULL customer IDs in silver.crm_cust_info'']\<rparr>"

definition gold_first_five_pass :: "pyval list option \<Rightarrow> nat postgres_hook" where
  "gold_first_five_pass completeness_row =
     scripted_hook [Some [PInt 0], Some [PInt 0], Some [PInt 0], Some [PInt 0], Some [PInt 0],
                    completeness_row]"

definition gold_before_completeness :: "nat world" where
  "gold_before_completeness =
     \<lparr>db = 5,
      stdout =
        [[CHR 0xF0, CHR 0x9F, CHR 0x94, CHR 0x8D] @ '' Executing Gold Layer Quality Assertions...'',
         replicate 60 (CHR ''=''),
         ''  '' @ arrow @ '' Running: No NULL customer keys in dim_customers'',
         ''    '' @ check_mark @ '' PASS: 0 (expected: 0)'',
         ''  '' @ arrow @ '' Running: No duplicate customers in dim_customers'',
         ''    '' @ check_mark @ '' PASS: 0 (expected: 0)'',
         ''  '' @ arrow @ '' Running: No NULL product keys in dim_products'',
         ''    '' @ check_mark @ '' PASS: 0 (expected: 0)'',
         ''  '' @ arrow @ '' Running: No orphaned products in fact_sales'',
         ''    '' @ check_mark @ '' PASS: 0 (expected: 0)'',
         ''  '' @ arrow @ '' Running: No orphaned customers in fact_sales'',
         ''    '' @ check_mark @ '' PASS: 0 (expected: 0)'']\<rparr>"

definition gold_at_completeness_failure :: "nat world" where
  "gold_at_completeness_failure =
     \<lparr>db = 6,
      stdout = stdout gold_before_completeness
        @ [''  '' @ arrow @ '' Checking: Data completeness (must be >= 95%)'']\<rparr>"

text \<open>
  An aborted run: the loads succeed and the first Silver assertion finds two duplicate
  customers.
\<close>

definition after_loads :: "nat world" where
  "after_loads =
     \<lparr>db = 0,
      stdout =
        [[CHR 0xF0, CHR 0x9F, CHR 0x93, CHR 0xA6] @ '' Executing Bronze Layer Load...'',
         ''   CRM Path: '' @ replace_char (CHR 0x5C) (CHR ''/'') CRM_PATH @ ''/'',
         ''   ERP Path: '' @ replace_char (CHR 0x5C) (CHR ''/'') ERP_PATH @ ''/'',
         check_mark @ '' Bronze layer loaded successfully'',
         [CHR 0xF0, CHR 0x9F, CHR 0x94, CHR 0x84] @ '' Executing Silver Layer Transformation...'',
         check_mark @ '' Silver layer loaded successfully'']\<rparr>"

definition at_duplicate_customers :: "nat world" where
  "at_duplicate_customers =
     \<lparr>db = 1,
      stdout = stdout after_loads
        @ [[CHR 0xF0, CHR 0x9F, CHR 0x94, CHR 0x8D]
             @ '' Executing Silver Layer Quality Assertions...'',
           replicate 60 (CHR ''=''),
           ''  '' @ arrow @ '' Running: No duplicate customers in silver.crm_cust_info'']\<rparr>"

definition duplicate_customers_cause :: exn where
  "duplicate_customers_cause =
     AirflowException (cross_mark
       @ '' No duplicate customers in silver.crm_cust_info FAILED: Expected 0, got 2'')"

text \<open>
  Two executions meet backends that need not be identical (sessions, counters, clocks
  differ). The hook is deterministic and read-stable with respect to a relation \<open>R\<close>
  between backends when, on related backends, every command and every query gives the
  same answer and leaves related backends.
\<close>

definition read_stable :: "('db \<Rightarrow> 'db \<Rightarrow> bool) \<Rightarrow> 'db postgres_hook \<Rightarrow> bool" where
  "read_stable R pg_hook \<longleftrightarrow>
     (\<forall>sql d d'. R d d' \<longrightarrow>
        fst (run pg_hook sql d) = fst (run pg_hook sql d')
        \<and> R (snd (run pg_hook sql d)) (snd (run pg_hook sql d'))
        \<and> fst (get_first pg_hook sql d) = fst (get_first pg_hook sql d')
        \<and> R (snd (get_first pg_hook sql d)) (snd (get_first pg_hook sql d')))"

text \<open>Worlds with related backends and the same output; programs that keep them so.\<close>

definition alike :: "('db \<Rightarrow> 'db \<Rightarrow> bool) \<Rightarrow> 'db world \<Rightarrow> 'db world \<Rightarrow> bool" where
  "alike R w w' \<longleftrightarrow> R (db w) (db w') \<and> stdout w = stdout w'"

definition stable_prog :: "('db \<Rightarrow> 'db \<Rightarrow> bool) \<Rightarrow> ('db, 'a) prog \<Rightarrow> bool" where
  "stable_prog R m \<longleftrightarrow>
     (\<forall>w w'. alike R w w' \<longrightarrow> fst (m w) = fst (m w') \<and> alike R (snd (m w)) (snd (m w')))"

text \<open>
  A backend made of a call counter and one number; every query returns the number. Two
  sessions have the same data when the numbers agree.
\<close>

definition session_hook :: "(nat \<times> int) postgres_hook" where
  "session_hook =
     \<lparr>run = (\<lambda>sql d. (Inr (), (Suc (fst d), snd d))),
      get_first = (\<lambda>sql d. (Inr (Some [PInt (snd d)]), (Suc (fst d), snd d)))\<rparr>"

definition same_data :: "nat \<times> int \<Rightarrow> nat \<times> int \<Rightarrow> bool" where
  "same_data d d' \<longleftrightarrow> snd d = snd d'"

definition first_session :: "(nat \<times> int) world" where
  "first_session = \<lparr>db = (0, 0), stdout = []\<rparr>"

definition later_session :: "(nat \<times> int) world" where
  "later_session = \<lparr>db = (41, 0), stdout = []\<rparr>"

text \<open>A container without files, and one that holds only the Gold script.\<close>

definition no_files :: "string \<Rightarrow> exn + string" where
  "no_files file_path =
     Inl (FileNotFoundError (''[Errno 2] No such file or directory: ''
            @ [CHR 0x27] @ file_path @ [CHR 0x27]))"

definition gold_script_only :: "string \<Rightarrow> exn + string" where
  "gold_script_only file_path =
     (if file_path = ''/opt/airflow/project_root/scripts/gold/ddl_gold.sql''
      then Inr ''CREATE VIEW gold.dim_customers AS SELECT 1;''
      else no_files file_path)"

text \<open>
  A run that reaches the Gold gate: every count is 0 and the completeness is 94.99.
\<close>

definition whole_run_low_completeness :: "nat postgres_hook" where
  "whole_run_low_completeness =
     scripted_hook [Some [PInt 0], Some [PInt 0], Some [PInt 0],
                    Some [PInt 0], Some [PInt 0], Some [PInt 0], Some [PInt 0], Some [PInt 0],
                    Some [PDec 9499 2]]"

definition before_gold_gate :: "nat world" where
  "before_gold_gate =
     \<lparr>db = 3,
      stdout = stdout after_loads
        @ [[CHR 0xF0, CHR 0x9F, CHR 0x94, CHR 0x8D]
             @ '' Executing Silver Layer Quality Assertions...'',
           replicate 60 (CHR ''=''),
           ''  '' @ arrow @ '' Running: No duplicate customers in silver.crm_cust_info'',
           ''    '' @ check_mark @ '' PASS: 0 (expected: 0)'',
           ''  '' @ arrow @ '' Running: No NULL customer IDs in silver.crm_cust_info'',
           ''    '' @ check_mark @ '' PASS: 0 (expected: 0)'',
           ''  '' @ arrow @ '' Running: No duplicate products in silver.crm_prd_info'',
           ''    '' @ check_mark @ '' PASS: 0 (expected: 0)'',
           replicate 60 (CHR ''=''),
           check_mark @ '' All Silver quality assertions passed'',
           check_mark @ '' Successfully loaded: ddl_gold.sql'',
           [CHR 0xE2, CHR 0xAD, CHR 0x90] @ '' Creating Gold Layer Views...'',
           check_mark @ '' Gold layer views created successfully'']\<rparr>"

definition at_low_completeness :: "nat world" where
  "at_low_completeness =
     \<lparr>db = 9,
      stdout = stdout before_gold_gate
        @ [[CHR 0xF0, CHR 0x9F, CHR 0x94, CHR 0x8D]
             @ '' Executing Gold Layer Quality Assertions...'',
           replicate 60 (CHR ''=''),
           ''  '' @ arrow @ '' Running: No NULL customer keys in dim_customers'',
           ''    '' @ check_mark @ '' PASS: 0 (expected: 0)'',
           ''  '' @ arrow @ '' Running: No duplicate customers in dim_customers'',
           ''    '' @ check_mark @ '' PASS: 0 (expected: 0)'',
           ''  '' @ arrow @ '' Running: No NULL product keys in dim_products'',
           ''    '' @ check_mark @ '' PASS: 0 (expected: 0)'',
           ''  '' @ arrow @ '' Running: No orphaned products in fact_sales'',
           ''    '' @ check_mark @ '' PASS: 0 (expected: 0)'',
           ''  '' @ arrow @ '' Running: No orphaned customers in fact_sales'',
           ''    '' @ check_mark @ '' PASS: 0 (expected: 0)'',
           ''  '' @ arrow @ '' Checking: Data completeness (must be >= 95%)'']\<rparr>"

definition low_completeness_cause :: exn where
  "low_completeness_cause =
     AirflowException (cross_mark @ '' Data completeness FAILED: 94.99% (expected >= 95%)'')"

section \<open>Properties\<close>

subsection \<open>One assertion\<close>

lemma rqa_result:
  assumes "get_first pg_hook query (db w) = (Inr result, d)"
  shows "fst (run_quality_assertion pg_hook test_name query ev w) =
     (let expected_value = (case ev of None \<Rightarrow> 0 | Some e \<Rightarrow> e);
          actual_value = first_or result PNone
      in if actual_value = PNone then
           Inl (AirflowException (cross_mark @ '' '' @ test_name @ '': Query returned NULL''))
         else if py_ne_int actual_value expected_value then
           Inl (AirflowException (cross_mark @ '' '' @ test_name @ '' FAILED: Expected ''
                 @ str_int expected_value @ '', got '' @ py_str actual_value))
         else Inr ())"
  using assms
  by (simp add: run_quality_assertion_def bind_def print_def hook_get_first_def raise_def Let_def)

lemma completeness_result:
  assumes "get_first pg_hook gold_completeness_query (db w) = (Inr result, d)"
  shows "fst (gold_completeness_check pg_hook w) =
     (let completeness = first_or result (PInt 0)
      in case py_lt_float completeness 95 of
           Inl e \<Rightarrow> Inl e
         | Inr True \<Rightarrow> Inl (AirflowException (cross_mark @ '' Data completeness FAILED: ''
                  @ py_str completeness @ ''% (expected >= 95%)''))
         | Inr False \<Rightarrow> Inr ())"
  using assms
  by (simp add: gold_completeness_check_def bind_def print_def hook_get_first_def raise_def
      Let_def split: sum.splits bool.splits)

lemma scalar_value_ne: "scalar_value v = Some x \<Longrightarrow> py_ne_int v e \<longleftrightarrow> x \<noteq> of_int e"
  by (cases v) auto

lemma scalar_value_lt: "scalar_value v = Some x \<Longrightarrow> py_lt_float v f = Inr (x < f)"
  by (cases v) auto

lemma scalar_value_not_none: "scalar_value v = Some x \<Longrightarrow> v \<noteq> PNone"
  by (cases v) auto

lemma scripted_get_first:
  "get_first (scripted_hook [r]) q (db fresh) = (Inr r, 1)"
  by (simp add: scripted_hook_def fresh_def)

lemma str_int_digit: "0 \<le> i \<Longrightarrow> i < 10 \<Longrightarrow> str_int i = [digit_char (nat i)]"
  by (simp add: str_int_def str_nat.simps)

lemma str_int_0: "str_int 0 = ''0''" by (simp add: str_int_digit digit_char_def)

lemma str_int_2: "str_int 2 = ''2''" by (simp add: str_int_digit digit_char_def)

lemma str_int_3: "str_int 3 = ''3''" by (simp add: str_int_digit digit_char_def)

lemma str_nat_9499: "str_nat 9499 = ''9499''"
  by (simp add: str_nat.simps digit_char_def)

lemma str_decimal_9499: "str_decimal 9499 2 = ''94.99''"
  by (simp add: str_decimal_def str_nat_9499)

text \<open>
  Claim C4. With an expected value given, an assertion whose query returns a number
  passes exactly when that number equals the expected value; otherwise it fails with
  a reason that reports the expected and the actual value. With expected 0, the
  actual value 0 passes and the actual value 3 fails with ``Expected 0, got 3''.
\<close>

theorem equals_passes_iff:
  assumes "get_first pg_hook query (db w) = (Inr (Some (actual # rest)), d)"
    and "scalar_value actual = Some x"
  shows "(fst (run_quality_assertion pg_hook test_name query (Some expected) w) = Inr ()
            \<longleftrightarrow> x = of_int expected)
       \<and> (x \<noteq> of_int expected \<longrightarrow>
            fst (run_quality_assertion pg_hook test_name query (Some expected) w) =
              Inl (AirflowException (cross_mark @ '' '' @ test_name @ '' FAILED: Expected ''
                     @ str_int expected @ '', got '' @ py_str actual)))"
  using scalar_value_ne [OF assms(2)] scalar_value_not_none [OF assms(2)]
  by (simp add: rqa_result [OF assms(1)])

theorem equals_passes_iff_witness:
  "get_first (scripted_hook [Some [PInt 3]]) ''q'' (db fresh) = (Inr (Some [PInt 3]), 1)
   \<and> scalar_value (PInt 3) = Some 3
   \<and> fst (run_quality_assertion (scripted_hook [Some [PInt 3]]) ''t'' ''q'' (Some 0) fresh) =
       Inl (AirflowException (cross_mark @ '' t FAILED: Expected 0, got 3''))
   \<and> get_first (scripted_hook [Some [PInt 0]]) ''q'' (db fresh) = (Inr (Some [PInt 0]), 1)
   \<and> scalar_value (PInt 0) = Some 0
   \<and> fst (run_quality_assertion (scripted_hook [Some [PInt 0]]) ''t'' ''q'' (Some 0) fresh) = Inr ()"
proof -
  have g3: "get_first (scripted_hook [Some [PInt 3]]) ''q'' (db fresh) = (Inr (Some [PInt 3]), 1)"
    by (rule scripted_get_first)
  have g0: "get_first (scripted_hook [Some [PInt 0]]) ''q'' (db fresh) = (Inr (Some [PInt 0]), 1)"
    by (rule scripted_get_first)
  have s3: "scalar_value (PInt 3) = Some 3" by simp
  have s0: "scalar_value (PInt 0) = Some 0" by simp
  have f3: "fst (run_quality_assertion (scripted_hook [Some [PInt 3]]) ''t'' ''q'' (Some 0) fresh) =
       Inl (AirflowException (cross_mark @ '' t FAILED: Expected 0, got 3''))"
    using equals_passes_iff [OF g3 s3, where test_name = "''t''" and expected = 0]
    by (simp add: str_int_0 str_int_3)
  have f0: "fst (run_quality_assertion (scripted_hook [Some [PInt 0]]) ''t'' ''q'' (Some 0) fresh) = Inr ()"
    using equals_passes_iff [OF g0 s0, where test_name = "''t''" and expected = 0]
    by simp
  show ?thesis
    using g3 g0 s3 s0 f3 f0 by blast
qed

text \<open>
  Claim C9. A call that omits \<^verbatim>\<open>expected_value\<close> compares against 0: it passes
  exactly when the number returned by the query is 0.
\<close>

theorem omitted_expected_value_is_zero:
  assumes "get_first pg_hook query (db w) = (Inr (Some (actual # rest)), d)"
    and "scalar_value actual = Some x"
  shows "fst (run_quality_assertion pg_hook test_name query None w) = Inr () \<longleftrightarrow> x = 0"
  using scalar_value_ne [OF assms(2), of 0] scalar_value_not_none [OF assms(2)]
  by (simp add: rqa_result [OF assms(1)])

theorem omitted_expected_value_is_zero_witness:
  "get_first (scripted_hook [Some [PInt 0]]) ''q'' (db fresh) = (Inr (Some [PInt 0]), 1)
   \<and> scalar_value (PInt 0) = Some 0
   \<and> fst (run_quality_assertion (scripted_hook [Some [PInt 0]]) ''t'' ''q'' None fresh) = Inr ()
   \<and> get_first (scripted_hook [Some [PInt 3]]) ''q'' (db fresh) = (Inr (Some [PInt 3]), 1)
   \<and> scalar_value (PInt 3) = Some 3
   \<and> fst (run_quality_assertion (scripted_hook [Some [PInt 3]]) ''t'' ''q'' None fresh) \<noteq> Inr ()"
proof -
  have s0: "scalar_value (PInt 0) = Some 0" and s3: "scalar_value (PInt 3) = Some 3"
    by simp_all
  have g0: "get_first (scripted_hook [Some [PInt 0]]) ''q'' (db fresh) = (Inr (Some [PInt 0]), 1)"
    by (rule scripted_get_first)
  have g3: "get_first (scripted_hook [Some [PInt 3]]) ''q'' (db fresh) = (Inr (Some [PInt 3]), 1)"
    by (rule scripted_get_first)
  show ?thesis
    using omitted_expected_value_is_zero [OF g0 s0, where test_name = "''t''"]
      omitted_expected_value_is_zero [OF g3 s3, where test_name = "''t''"] g0 g3 s0 s3
    by simp
qed

text \<open>
  Claim C5. The completeness check of the Gold gate passes exactly when the returned
  percentage is at least 95: 95.00 passes and 94.99 fails.
\<close>

theorem completeness_passes_iff_at_least_95:
  assumes "get_first pg_hook gold_completeness_query (db w) = (Inr (Some (actual # rest)), d)"
    and "scalar_value actual = Some x"
  shows "(fst (gold_completeness_check pg_hook w) = Inr () \<longleftrightarrow> x \<ge> 95)
       \<and> (x < 95 \<longrightarrow> fst (gold_completeness_check pg_hook w) =
            Inl (AirflowException (cross_mark @ '' Data completeness FAILED: ''
                   @ py_str actual @ ''% (expected >= 95%)'')))"
  using scalar_value_lt [OF assms(2), of 95]
  by (simp add: completeness_result [OF assms(1)] not_less split: bool.splits)

theorem completeness_passes_iff_at_least_95_witness:
  "get_first (scripted_hook [Some [PDec 9500 2]]) gold_completeness_query (db fresh)
     = (Inr (Some [PDec 9500 2]), 1)
   \<and> scalar_value (PDec 9500 2) = Some 95
   \<and> fst (gold_completeness_check (scripted_hook [Some [PDec 9500 2]]) fresh) = Inr ()
   \<and> get_first (scripted_hook [Some [PDec 9499 2]]) gold_completeness_query (db fresh)
     = (Inr (Some [PDec 9499 2]), 1)
   \<and> scalar_value (PDec 9499 2) = Some (9499 / 100)
   \<and> fst (gold_completeness_check (scripted_hook [Some [PDec 9499 2]]) fresh) =
       Inl (AirflowException (cross_mark @ '' Data completeness FAILED: 94.99% (expected >= 95%)''))"
proof -
  have a: "scalar_value (PDec 9500 2) = Some 95" by (simp add: dec_val_def)
  have b: "scalar_value (PDec 9499 2) = Some (9499 / 100)" by (simp add: dec_val_def)
  have ga: "get_first (scripted_hook [Some [PDec 9500 2]]) gold_completeness_query (db fresh)
     = (Inr (Some [PDec 9500 2]), 1)"
    by (rule scripted_get_first)
  have gb: "get_first (scripted_hook [Some [PDec 9499 2]]) gold_completeness_query (db fresh)
     = (Inr (Some [PDec 9499 2]), 1)"
    by (rule scripted_get_first)
  have pa: "fst (gold_completeness_check (scripted_hook [Some [PDec 9500 2]]) fresh) = Inr ()"
    using completeness_passes_iff_at_least_95 [OF ga a] by simp
  have pb: "fst (gold_completeness_check (scripted_hook [Some [PDec 9499 2]]) fresh) =
       Inl (AirflowException (cross_mark @ '' Data completeness FAILED: 94.99% (expected >= 95%)''))"
    using completeness_passes_iff_at_least_95 [OF gb b] by (simp add: str_decimal_9499)
  show ?thesis
    using ga gb a b pa pb by blast
qed

lemma scripted_get_first_empty:
  "get_first (scripted_hook []) q (db fresh) = (Inr None, 1)"
  by (simp add: scripted_hook_def fresh_def)

text \<open>
  Claim C3, as amended. In \<^verbatim>\<open>run_quality_assertion\<close> a query that returns no row, an empty
  row or NULL in its first column fails with ``Query returned NULL'', whatever the expected
  value is: the absent value is never taken for 0 and never passes. In the completeness
  check of the Gold gate a missing row is taken for 0 and fails the 95% threshold as an
  ordinary comparison failure; it never passes either.
\<close>

theorem missing_value_fails:
  "(get_first pg_hook query (db w) = (Inr r, d)
      \<and> (r = None \<or> r = Some [] \<or> (\<exists>rest. r = Some (PNone # rest)))
      \<longrightarrow> fst (run_quality_assertion pg_hook test_name query ev w) =
            Inl (AirflowException (cross_mark @ '' '' @ test_name @ '': Query returned NULL'')))
   \<and> (get_first pg_hook gold_completeness_query (db w) = (Inr r, d)
      \<and> (r = None \<or> r = Some [])
      \<longrightarrow> fst (gold_completeness_check pg_hook w) =
            Inl (AirflowException (cross_mark
                   @ '' Data completeness FAILED: 0% (expected >= 95%)'')))"
proof (intro conjI impI)
  assume a: "get_first pg_hook query (db w) = (Inr r, d)
      \<and> (r = None \<or> r = Some [] \<or> (\<exists>rest. r = Some (PNone # rest)))"
  then have "first_or r PNone = PNone" by auto
  then show "fst (run_quality_assertion pg_hook test_name query ev w) =
            Inl (AirflowException (cross_mark @ '' '' @ test_name @ '': Query returned NULL''))"
    using a by (simp add: rqa_result)
next
  assume a: "get_first pg_hook gold_completeness_query (db w) = (Inr r, d)
      \<and> (r = None \<or> r = Some [])"
  then have "first_or r (PInt 0) = PInt 0" by auto
  then show "fst (gold_completeness_check pg_hook w) =
            Inl (AirflowException (cross_mark
                   @ '' Data completeness FAILED: 0% (expected >= 95%)''))"
    using a by (simp add: completeness_result str_int_0)
qed

theorem missing_value_fails_witness:
  "get_first (scripted_hook [Some [PNone]]) ''q'' (db fresh) = (Inr (Some [PNone]), 1)
   \<and> fst (run_quality_assertion (scripted_hook [Some [PNone]]) ''t'' ''q'' (Some 0) fresh) =
       Inl (AirflowException (cross_mark @ '' t: Query returned NULL''))
   \<and> get_first (scripted_hook []) gold_completeness_query (db fresh) = (Inr None, 1)
   \<and> fst (gold_completeness_check (scripted_hook []) fresh) =
       Inl (AirflowException (cross_mark @ '' Data completeness FAILED: 0% (expected >= 95%)''))"
proof -
  have g1: "get_first (scripted_hook [Some [PNone]]) ''q'' (db fresh) = (Inr (Some [PNone]), 1)"
    by (rule scripted_get_first)
  have g2: "get_first (scripted_hook []) gold_completeness_query (db fresh) = (Inr None, 1)"
    by (rule scripted_get_first_empty)
  have a: "fst (run_quality_assertion (scripted_hook [Some [PNone]]) ''t'' ''q'' (Some 0) fresh) =
       Inl (AirflowException (cross_mark @ '' t: Query returned NULL''))"
    using missing_value_fails [of "scripted_hook [Some [PNone]]" "''q''" fresh "Some [PNone]" 1
        "''t''" "Some 0"] g1 by simp
  have b: "fst (gold_completeness_check (scripted_hook []) fresh) =
       Inl (AirflowException (cross_mark @ '' Data completeness FAILED: 0% (expected >= 95%)''))"
    using missing_value_fails [of "scripted_hook []" gold_completeness_query fresh None 1] g2
    by simp
  show ?thesis using g1 g2 a b by blast
qed

text \<open>
  The claim as stated fails for the completeness check: with no row the check reports the
  value 0, exactly as it does for a row holding 0.
\<close>

theorem completeness_no_row_counterexample:
  "fst (gold_completeness_check (scripted_hook []) fresh) =
     Inl (AirflowException (cross_mark @ '' Data completeness FAILED: 0% (expected >= 95%)''))
   \<and> fst (gold_completeness_check (scripted_hook []) fresh) =
     fst (gold_completeness_check (scripted_hook [Some [PInt 0]]) fresh)"
  by (simp add: completeness_result [OF scripted_get_first_empty]
      completeness_result [OF scripted_get_first] str_int_0)

lemma rqa_numeric:
  assumes "get_first pg_hook query (db w) = (Inr (Some (actual # rest)), d)"
    and "scalar_value actual = Some x"
  shows "fst (run_quality_assertion pg_hook test_name query ev w) =
     (if x = of_int (case ev of None \<Rightarrow> 0 | Some e \<Rightarrow> e) then Inr ()
      else Inl (AirflowException (cross_mark @ '' '' @ test_name @ '' FAILED: Expected ''
             @ str_int (case ev of None \<Rightarrow> 0 | Some e \<Rightarrow> e) @ '', got '' @ py_str actual)))"
  using scalar_value_ne [OF assms(2)] scalar_value_not_none [OF assms(2)]
  by (simp add: rqa_result [OF assms(1)])

lemma str_int_4: "str_int 4 = ''4''" by (simp add: str_int_digit digit_char_def)

text \<open>
  Claim C6, as amended. \<^verbatim>\<open>run_quality_assertion\<close> takes no comparator and compares by
  equality only: with a number as actual value it passes exactly when the number equals
  the expected value (0 when omitted), and an actual value strictly below or strictly
  above the expected value fails with ``FAILED: Expected e, got a''. Under no
  \<^verbatim>\<open>expected_value\<close> argument do two different actual values both pass, so no call of
  the helper evaluates a less-or-equal (or greater-or-equal) comparison.
\<close>

theorem equality_is_the_only_comparison:
  "(get_first pg_hook query (db w) = (Inr (Some (actual # rest)), d)
      \<and> scalar_value actual = Some x
      \<longrightarrow> (fst (run_quality_assertion pg_hook test_name query ev w) = Inr ()
             \<longleftrightarrow> x = of_int (case ev of None \<Rightarrow> 0 | Some e \<Rightarrow> e))
        \<and> (x < of_int (case ev of None \<Rightarrow> 0 | Some e \<Rightarrow> e)
             \<or> of_int (case ev of None \<Rightarrow> 0 | Some e \<Rightarrow> e) < x
           \<longrightarrow> fst (run_quality_assertion pg_hook test_name query ev w) =
                 Inl (AirflowException (cross_mark @ '' '' @ test_name @ '' FAILED: Expected ''
                        @ str_int (case ev of None \<Rightarrow> 0 | Some e \<Rightarrow> e)
                        @ '', got '' @ py_str actual))))
   \<and> (get_first hook1 query1 (db w1) = (Inr (Some (actual1 # rest1)), d1)
      \<and> scalar_value actual1 = Some x1
      \<and> get_first hook2 query2 (db w2) = (Inr (Some (actual2 # rest2)), d2)
      \<and> scalar_value actual2 = Some x2
      \<and> x1 \<noteq> x2
      \<longrightarrow> \<not> (fst (run_quality_assertion hook1 name1 query1 ev w1) = Inr ()
             \<and> fst (run_quality_assertion hook2 name2 query2 ev w2) = Inr ()))"
proof (intro conjI impI)
  assume a: "get_first pg_hook query (db w) = (Inr (Some (actual # rest)), d)
      \<and> scalar_value actual = Some x"
  then show "fst (run_quality_assertion pg_hook test_name query ev w) = Inr ()
             \<longleftrightarrow> x = of_int (case ev of None \<Rightarrow> 0 | Some e \<Rightarrow> e)"
    by (simp add: rqa_numeric)
  assume "x < of_int (case ev of None \<Rightarrow> 0 | Some e \<Rightarrow> e)
             \<or> of_int (case ev of None \<Rightarrow> 0 | Some e \<Rightarrow> e) < x"
  then have "x \<noteq> of_int (case ev of None \<Rightarrow> 0 | Some e \<Rightarrow> e)" by auto
  then show "fst (run_quality_assertion pg_hook test_name query ev w) =
                 Inl (AirflowException (cross_mark @ '' '' @ test_name @ '' FAILED: Expected ''
                        @ str_int (case ev of None \<Rightarrow> 0 | Some e \<Rightarrow> e)
                        @ '', got '' @ py_str actual))"
    using a by (simp add: rqa_numeric)
next
  assume b: "get_first hook1 query1 (db w1) = (Inr (Some (actual1 # rest1)), d1)
      \<and> scalar_value actual1 = Some x1
      \<and> get_first hook2 query2 (db w2) = (Inr (Some (actual2 # rest2)), d2)
      \<and> scalar_value actual2 = Some x2
      \<and> x1 \<noteq> x2"
  then have "fst (run_quality_assertion hook1 name1 query1 ev w1) = Inr ()
               \<longleftrightarrow> x1 = of_int (case ev of None \<Rightarrow> 0 | Some e \<Rightarrow> e)"
    and "fst (run_quality_assertion hook2 name2 query2 ev w2) = Inr ()
               \<longleftrightarrow> x2 = of_int (case ev of None \<Rightarrow> 0 | Some e \<Rightarrow> e)"
    by (simp_all add: rqa_numeric)
  then show "\<not> (fst (run_quality_assertion hook1 name1 query1 ev w1) = Inr ()
             \<and> fst (run_quality_assertion hook2 name2 query2 ev w2) = Inr ())"
    using b by auto
qed

theorem equality_is_the_only_comparison_witness:
  "get_first (scripted_hook [Some [PInt 2]]) ''q'' (db fresh) = (Inr (Some [PInt 2]), 1)
   \<and> scalar_value (PInt 2) = Some 2
   \<and> (2::rat) < of_int 3
   \<and> fst (run_quality_assertion (scripted_hook [Some [PInt 2]]) ''t'' ''q'' (Some 3) fresh) =
       Inl (AirflowException (cross_mark @ '' t FAILED: Expected 3, got 2''))
   \<and> get_first (scripted_hook [Some [PInt 4]]) ''q'' (db fresh) = (Inr (Some [PInt 4]), 1)
   \<and> scalar_value (PInt 4) = Some 4
   \<and> of_int 3 < (4::rat)
   \<and> fst (run_quality_assertion (scripted_hook [Some [PInt 4]]) ''t'' ''q'' (Some 3) fresh) =
       Inl (AirflowException (cross_mark @ '' t FAILED: Expected 3, got 4''))
   \<and> get_first (scripted_hook [Some [PInt 3]]) ''q'' (db fresh) = (Inr (Some [PInt 3]), 1)
   \<and> scalar_value (PInt 3) = Some 3
   \<and> fst (run_quality_assertion (scripted_hook [Some [PInt 3]]) ''t'' ''q'' (Some 3) fresh)
       = Inr ()
   \<and> (2::rat) \<noteq> 3
   \<and> \<not> (fst (run_quality_assertion (scripted_hook [Some [PInt 2]]) ''t'' ''q'' (Some 3) fresh)
           = Inr ()
        \<and> fst (run_quality_assertion (scripted_hook [Some [PInt 3]]) ''t'' ''q'' (Some 3) fresh)
           = Inr ())"
proof -
  have g2: "get_first (scripted_hook [Some [PInt 2]]) ''q'' (db fresh) = (Inr (Some [PInt 2]), 1)"
    and g3: "get_first (scripted_hook [Some [PInt 3]]) ''q'' (db fresh) = (Inr (Some [PInt 3]), 1)"
    and g4: "get_first (scripted_hook [Some [PInt 4]]) ''q'' (db fresh) = (Inr (Some [PInt 4]), 1)"
    by (rule scripted_get_first)+
  have v2: "scalar_value (PInt 2) = Some 2" and v3: "scalar_value (PInt 3) = Some 3"
    and v4: "scalar_value (PInt 4) = Some 4"
    by simp_all
  have f2: "fst (run_quality_assertion (scripted_hook [Some [PInt 2]]) ''t'' ''q'' (Some 3) fresh)
       = Inl (AirflowException (cross_mark @ '' t FAILED: Expected 3, got 2''))"
    using equality_is_the_only_comparison
      [where pg_hook = "scripted_hook [Some [PInt 2]]" and query = "''q''" and w = fresh
         and actual = "PInt 2" and rest = "[]" and d = 1 and x = 2 and test_name = "''t''"
         and ev = "Some 3", THEN conjunct1] g2 v2
    by (simp add: str_int_2 str_int_3)
  have f4: "fst (run_quality_assertion (scripted_hook [Some [PInt 4]]) ''t'' ''q'' (Some 3) fresh)
       = Inl (AirflowException (cross_mark @ '' t FAILED: Expected 3, got 4''))"
    using equality_is_the_only_comparison
      [where pg_hook = "scripted_hook [Some [PInt 4]]" and query = "''q''" and w = fresh
         and actual = "PInt 4" and rest = "[]" and d = 1 and x = 4 and test_name = "''t''"
         and ev = "Some 3", THEN conjunct1] g4 v4
    by (simp add: str_int_4 str_int_3)
  have f3: "fst (run_quality_assertion (scripted_hook [Some [PInt 3]]) ''t'' ''q'' (Some 3) fresh)
       = Inr ()"
    using equality_is_the_only_comparison
      [where pg_hook = "scripted_hook [Some [PInt 3]]" and query = "''q''" and w = fresh
         and actual = "PInt 3" and rest = "[]" and d = 1 and x = 3 and test_name = "''t''"
         and ev = "Some 3", THEN conjunct1] g3 v3
    by simp
  have both: "\<not> (fst (run_quality_assertion (scripted_hook [Some [PInt 2]]) ''t'' ''q''
                    (Some 3) fresh) = Inr ()
        \<and> fst (run_quality_assertion (scripted_hook [Some [PInt 3]]) ''t'' ''q'' (Some 3) fresh)
           = Inr ())"
    using equality_is_the_only_comparison
      [where ?hook1.0 = "scripted_hook [Some [PInt 2]]" and ?query1.0 = "''q''" and ?w1.0 = fresh
         and ?actual1.0 = "PInt 2" and ?rest1.0 = "[]" and ?d1.0 = 1 and ?x1.0 = 2
         and ?hook2.0 = "scripted_hook [Some [PInt 3]]" and ?query2.0 = "''q''" and ?w2.0 = fresh
         and ?actual2.0 = "PInt 3" and ?rest2.0 = "[]" and ?d2.0 = 1 and ?x2.0 = 3
         and ?name1.0 = "''t''" and ?name2.0 = "''t''" and ev = "Some 3", THEN conjunct2]
      g2 g3 v2 v3
    by simp
  show ?thesis
    using g2 g3 g4 v2 v3 v4 f2 f3 f4 both by simp
qed

text \<open>The claim as stated fails: actual 2 against expected 3 does not pass.\<close>

theorem less_or_equal_counterexample:
  "fst (run_quality_assertion (scripted_hook [Some [PInt 2]]) ''t'' ''q'' (Some 3) fresh) =
     Inl (AirflowException (cross_mark @ '' t FAILED: Expected 3, got 2''))"
  by (simp add: rqa_result [OF scripted_get_first] str_int_2 str_int_3)

lemma three_vs_zero:
  "fst (run_quality_assertion (scripted_hook [Some [PInt 3]]) ''t'' ''q'' (Some 0) fresh) =
     Inl (AirflowException (cross_mark @ '' t FAILED: Expected 0, got 3''))"
  by (simp add: rqa_result [OF scripted_get_first] str_int_0 str_int_3)

lemma no_comparator_in_reason:
  "\<not> mentions_comparator (cross_mark @ '' t FAILED: Expected 0, got 3'')"
  by (simp add: mentions_comparator_def comparator_renderings_def cross_mark_def
      sublist_Cons_right)

lemma completeness_failure_reason:
  assumes "get_first pg_hook gold_completeness_query (db w) = (Inr r, d)"
    and "fst (gold_completeness_check pg_hook w) = Inl (AirflowException m)"
  shows "m = cross_mark @ '' Data completeness FAILED: '' @ py_str (first_or r (PInt 0))
               @ ''% (expected >= 95%)''"
proof -
  let ?c = "first_or r (PInt 0)"
  let ?m = "cross_mark @ '' Data completeness FAILED: '' @ py_str ?c @ ''% (expected >= 95%)''"
  have res: "fst (gold_completeness_check pg_hook w) =
     (case py_lt_float ?c 95 of
           Inl e \<Rightarrow> Inl e
         | Inr True \<Rightarrow> Inl (AirflowException ?m)
         | Inr False \<Rightarrow> Inr ())"
    by (simp only: completeness_result [OF assms(1)] Let_def)
  show ?thesis
  proof (cases "py_lt_float ?c 95")
    case (Inl e)
    then have "e = AirflowException m"
      using res assms(2) by simp
    moreover have "\<exists>t. e = TypeError t"
      using Inl by (cases ?c) auto
    ultimately show ?thesis by auto
  next
    case (Inr b)
    then show ?thesis
      using res assms(2) by (cases b) simp_all
  qed
qed

lemma sublist_mid: "ys = ps @ xs @ ss \<Longrightarrow> sublist xs ys"
  by (simp add: sublist_def) blast

lemma completeness_reason_name:
  "sublist ''Data completeness''
     (cross_mark @ '' Data completeness FAILED: '' @ a @ ''% (expected >= 95%)'')"
  by (rule sublist_mid [where ps = "cross_mark @ '' ''"
        and ss = "'' FAILED: '' @ a @ ''% (expected >= 95%)''"]) simp

lemma completeness_reason_comparator:
  "sublist ''>=''
     (cross_mark @ '' Data completeness FAILED: '' @ a @ ''% (expected >= 95%)'')"
  by (rule sublist_mid [where ps = "cross_mark @ '' Data completeness FAILED: '' @ a
        @ ''% (expected ''" and ss = "'' 95%)''"]) simp

lemma completeness_reason_expected:
  "sublist ''95''
     (cross_mark @ '' Data completeness FAILED: '' @ a @ ''% (expected >= 95%)'')"
  by (rule sublist_mid [where ps = "cross_mark @ '' Data completeness FAILED: '' @ a
        @ ''% (expected >= ''" and ss = "''%)''"]) simp

lemma completeness_reason_actual:
  "sublist a
     (cross_mark @ '' Data completeness FAILED: '' @ a @ ''% (expected >= 95%)'')"
  by (rule sublist_mid [where ps = "cross_mark @ '' Data completeness FAILED: ''"
        and ss = "''% (expected >= 95%)''"]) simp

lemma completeness_reason_mentions:
  "mentions_comparator
     (cross_mark @ '' Data completeness FAILED: '' @ a @ ''% (expected >= 95%)'')"
  by (simp only: mentions_comparator_def comparator_renderings_def list_ex_Cons_iff list_ex_Nil_iff
      completeness_reason_comparator simp_thms)

text \<open>
  Claim C7, as amended. The reason of a failed comparison in
  \<^verbatim>\<open>run_quality_assertion\<close> is the cross mark, the assertion's name, ``FAILED: Expected'',
  the expected value, ``got'' and the actual value: it includes the name, the expected
  value and the actual value, and has no field for a comparator. The reason of a failed
  completeness comparison in the Gold gate is ``Data completeness FAILED: a% (expected >=
  95%)'': it includes the name, the comparator, the expected value and the actual value.
\<close>

theorem failure_reason_contents:
  "(get_first pg_hook query (db w) = (Inr (Some (actual # rest)), d)
      \<and> actual \<noteq> PNone
      \<and> fst (run_quality_assertion pg_hook test_name query ev w) \<noteq> Inr ()
      \<longrightarrow> (\<exists>msg. fst (run_quality_assertion pg_hook test_name query ev w)
                    = Inl (AirflowException msg)
              \<and> msg = cross_mark @ '' '' @ test_name @ '' FAILED: Expected ''
                     @ str_int (case ev of None \<Rightarrow> 0 | Some e \<Rightarrow> e)
                     @ '', got '' @ py_str actual
              \<and> sublist test_name msg
              \<and> sublist (str_int (case ev of None \<Rightarrow> 0 | Some e \<Rightarrow> e)) msg
              \<and> sublist (py_str actual) msg))
   \<and> (get_first pg_hook gold_completeness_query (db w) = (Inr r, d)
      \<and> fst (gold_completeness_check pg_hook w) = Inl (AirflowException m)
      \<longrightarrow> m = cross_mark @ '' Data completeness FAILED: '' @ py_str (first_or r (PInt 0))
                 @ ''% (expected >= 95%)''
        \<and> sublist ''Data completeness'' m
        \<and> sublist ''>='' m
        \<and> sublist ''95'' m
        \<and> sublist (py_str (first_or r (PInt 0))) m
        \<and> mentions_comparator m)"
proof (intro conjI impI)
  let ?e = "str_int (case ev of None \<Rightarrow> 0 | Some e \<Rightarrow> e)"
  let ?msg = "cross_mark @ '' '' @ test_name @ '' FAILED: Expected '' @ ?e
                @ '', got '' @ py_str actual"
  assume a: "get_first pg_hook query (db w) = (Inr (Some (actual # rest)), d)
      \<and> actual \<noteq> PNone
      \<and> fst (run_quality_assertion pg_hook test_name query ev w) \<noteq> Inr ()"
  then have g: "get_first pg_hook query (db w) = (Inr (Some (actual # rest)), d)"
    and nn: "actual \<noteq> PNone"
    and nf: "fst (run_quality_assertion pg_hook test_name query ev w) \<noteq> Inr ()"
    by simp_all
  have "fst (run_quality_assertion pg_hook test_name query ev w) =
          (if py_ne_int actual (case ev of None \<Rightarrow> 0 | Some e \<Rightarrow> e)
           then Inl (AirflowException ?msg) else Inr ())"
    using nn by (simp add: rqa_result [OF g] Let_def)
  then have r: "fst (run_quality_assertion pg_hook test_name query ev w)
             = Inl (AirflowException ?msg)"
    using nf by (cases "py_ne_int actual (case ev of None \<Rightarrow> 0 | Some e \<Rightarrow> e)") simp_all
  have n: "sublist test_name ?msg"
    by (rule sublist_mid [where ps = "cross_mark @ '' ''"
          and ss = "'' FAILED: Expected '' @ ?e @ '', got '' @ py_str actual"]) simp
  have e: "sublist ?e ?msg"
    by (rule sublist_mid [where ps = "cross_mark @ '' '' @ test_name @ '' FAILED: Expected ''"
          and ss = "'', got '' @ py_str actual"]) simp
  have v: "sublist (py_str actual) ?msg"
    by (rule sublist_mid [where ps = "cross_mark @ '' '' @ test_name @ '' FAILED: Expected ''
          @ ?e @ '', got ''" and ss = "[]"]) simp
  show "\<exists>msg. fst (run_quality_assertion pg_hook test_name query ev w)
                    = Inl (AirflowException msg)
              \<and> msg = ?msg
              \<and> sublist test_name msg
              \<and> sublist ?e msg
              \<and> sublist (py_str actual) msg"
    by (rule exI [of _ ?msg]) (simp only: r n e v simp_thms)
next
  let ?a = "py_str (first_or r (PInt 0))"
  let ?m = "cross_mark @ '' Data completeness FAILED: '' @ ?a @ ''% (expected >= 95%)''"
  assume b: "get_first pg_hook gold_completeness_query (db w) = (Inr r, d)
      \<and> fst (gold_completeness_check pg_hook w) = Inl (AirflowException m)"
  then have m: "m = ?m"
    using completeness_failure_reason [of pg_hook w r d m] by simp
  show "m = ?m" by (rule m)
  show "sublist ''Data completeness'' m"
    by (simp only: m completeness_reason_name)
  show "sublist ''>='' m"
    by (simp only: m completeness_reason_comparator)
  show "sublist ''95'' m"
    by (simp only: m completeness_reason_expected)
  show "sublist ?a m"
    by (subst m) (rule completeness_reason_actual)
  show "mentions_comparator m"
    by (simp only: m completeness_reason_mentions)
qed

theorem failure_reason_contents_witness:
  "get_first (scripted_hook [Some [PInt 3]]) ''q'' (db fresh) = (Inr (Some [PInt 3]), 1)
   \<and> PInt 3 \<noteq> PNone
   \<and> fst (run_quality_assertion (scripted_hook [Some [PInt 3]]) ''t'' ''q'' (Some 0) fresh)
       \<noteq> Inr ()
   \<and> (\<exists>msg. fst (run_quality_assertion (scripted_hook [Some [PInt 3]]) ''t'' ''q'' (Some 0) fresh)
                 = Inl (AirflowException msg)
           \<and> msg = cross_mark @ '' '' @ ''t'' @ '' FAILED: Expected '' @ ''0'' @ '', got '' @ ''3''
           \<and> sublist ''t'' msg \<and> sublist ''0'' msg \<and> sublist ''3'' msg)
   \<and> get_first (scripted_hook [Some [PDec 9499 2]]) gold_completeness_query (db fresh)
       = (Inr (Some [PDec 9499 2]), 1)
   \<and> fst (gold_completeness_check (scripted_hook [Some [PDec 9499 2]]) fresh)
       = Inl (AirflowException
               (cross_mark @ '' Data completeness FAILED: '' @ ''94.99'' @ ''% (expected >= 95%)''))
   \<and> sublist ''Data completeness''
        (cross_mark @ '' Data completeness FAILED: '' @ ''94.99'' @ ''% (expected >= 95%)'')
   \<and> sublist ''>=''
        (cross_mark @ '' Data completeness FAILED: '' @ ''94.99'' @ ''% (expected >= 95%)'')
   \<and> sublist ''95''
        (cross_mark @ '' Data completeness FAILED: '' @ ''94.99'' @ ''% (expected >= 95%)'')
   \<and> sublist ''94.99''
        (cross_mark @ '' Data completeness FAILED: '' @ ''94.99'' @ ''% (expected >= 95%)'')
   \<and> mentions_comparator
        (cross_mark @ '' Data completeness FAILED: '' @ ''94.99'' @ ''% (expected >= 95%)'')"
proof -
  have g: "get_first (scripted_hook [Some [PInt 3]]) ''q'' (db fresh) = (Inr (Some [PInt 3]), 1)"
    by (rule scripted_get_first)
  have n: "PInt 3 \<noteq> PNone" by simp
  have f: "fst (run_quality_assertion (scripted_hook [Some [PInt 3]]) ''t'' ''q'' (Some 0) fresh)
       \<noteq> Inr ()"
    by (simp add: three_vs_zero)
  have gnf: "get_first (scripted_hook [Some [PInt 3]]) ''q'' (db fresh) = (Inr (Some [PInt 3]), 1)
      \<and> PInt 3 \<noteq> PNone
      \<and> fst (run_quality_assertion (scripted_hook [Some [PInt 3]]) ''t'' ''q'' (Some 0) fresh)
          \<noteq> Inr ()"
    using g n f by (intro conjI)
  have h: "\<exists>msg. fst (run_quality_assertion (scripted_hook [Some [PInt 3]]) ''t'' ''q'' (Some 0)
                        fresh) = Inl (AirflowException msg)
           \<and> msg = cross_mark @ '' '' @ ''t'' @ '' FAILED: Expected '' @ ''0'' @ '', got '' @ ''3''
           \<and> sublist ''t'' msg \<and> sublist ''0'' msg \<and> sublist ''3'' msg"
    using failure_reason_contents
      [where pg_hook = "scripted_hook [Some [PInt 3]]" and query = "''q''" and w = fresh
         and actual = "PInt 3" and rest = "[]" and d = 1 and test_name = "''t''"
         and ev = "Some 0", THEN conjunct1, THEN mp, OF gnf]
    by (simp only: option.case py_str.simps str_int_0 str_int_3)
  have gc: "get_first (scripted_hook [Some [PDec 9499 2]]) gold_completeness_query (db fresh)
       = (Inr (Some [PDec 9499 2]), 1)"
    by (rule scripted_get_first)
  have fc: "fst (gold_completeness_check (scripted_hook [Some [PDec 9499 2]]) fresh)
       = Inl (AirflowException
               (cross_mark @ '' Data completeness FAILED: '' @ ''94.99'' @ ''% (expected >= 95%)''))"
    by (simp add: completeness_result [OF gc] dec_val_def str_decimal_9499)
  have gfc: "get_first (scripted_hook [Some [PDec 9499 2]]) gold_completeness_query (db fresh)
       = (Inr (Some [PDec 9499 2]), 1)
     \<and> fst (gold_completeness_check (scripted_hook [Some [PDec 9499 2]]) fresh)
       = Inl (AirflowException
               (cross_mark @ '' Data completeness FAILED: '' @ ''94.99'' @ ''% (expected >= 95%)''))"
    using gc fc by (intro conjI)
  have c: "sublist ''Data completeness''
        (cross_mark @ '' Data completeness FAILED: '' @ ''94.99'' @ ''% (expected >= 95%)'')
   \<and> sublist ''>=''
        (cross_mark @ '' Data completeness FAILED: '' @ ''94.99'' @ ''% (expected >= 95%)'')
   \<and> sublist ''95''
        (cross_mark @ '' Data completeness FAILED: '' @ ''94.99'' @ ''% (expected >= 95%)'')
   \<and> sublist ''94.99''
        (cross_mark @ '' Data completeness FAILED: '' @ ''94.99'' @ ''% (expected >= 95%)'')
   \<and> mentions_comparator
        (cross_mark @ '' Data completeness FAILED: '' @ ''94.99'' @ ''% (expected >= 95%)'')"
    using failure_reason_contents
      [where pg_hook = "scripted_hook [Some [PDec 9499 2]]" and w = fresh
         and r = "Some [PDec 9499 2]" and d = 1
         and m = "cross_mark @ '' Data completeness FAILED: '' @ ''94.99''
                    @ ''% (expected >= 95%)''",
         THEN conjunct2, THEN mp, OF gfc, THEN conjunct2]
    by (simp only: first_or.simps py_str.simps str_decimal_9499)
  show ?thesis
    by (rule c g n f h gc fc conjI)+
qed

text \<open>The claim as stated fails: this reason names no comparator.\<close>

theorem reason_without_comparator_counterexample:
  "fst (run_quality_assertion (scripted_hook [Some [PInt 3]]) ''t'' ''q'' (Some 0) fresh) =
     Inl (AirflowException (cross_mark @ '' t FAILED: Expected 0, got 3''))
   \<and> \<not> mentions_comparator (cross_mark @ '' t FAILED: Expected 0, got 3'')"
  using three_vs_zero no_comparator_in_reason by blast

subsection \<open>Quality gates\<close>

lemma block_append:
  "block (xs @ ys) w = (case block xs w of (Inl e, w') \<Rightarrow> (Inl e, w') | (Inr _, w') \<Rightarrow> block ys w')"
  by (induction xs arbitrary: w) (auto split: prod.splits sum.splits)

lemma block_fail_at:
  assumes "k < length ms" and "block (take k ms) w = (Inr (), w1)"
    and "(ms ! k) w1 = (Inl e, w2)"
  shows "block ms w = (Inl e, w2)"
proof -
  have "ms = take k ms @ (ms ! k # drop (Suc k) ms)"
    using assms(1) by (simp add: id_take_nth_drop)
  then have "block ms w = block (take k ms @ (ms ! k # drop (Suc k) ms)) w"
    by simp
  also have "\<dots> = (Inl e, w2)"
    using assms(2,3) by (simp add: block_append)
  finally show ?thesis .
qed

lemma block_fail_at_fst:
  assumes "k < length ms" and "block (take k ms) w = (Inr (), w1)"
    and "fst ((ms ! k) w1) = Inl e"
  shows "fst (block ms w) = Inl e"
proof -
  obtain w2 where "(ms ! k) w1 = (Inl e, w2)"
    using assms(3) by (cases "(ms ! k) w1") auto
  then show ?thesis
    using block_fail_at [OF assms(1,2)] by simp
qed

lemma connection_apply: "connection h c = h" by (simp add: connection_def)

lemma silver_body_length: "length (check_silver_quality_body h) = 7"
  by (simp add: check_silver_quality_body_def)

lemma gold_body_7: "check_gold_quality_body h ! 7 = gold_completeness_check h"
  by (simp add: check_gold_quality_body_def)

lemma gold_body_length: "length (check_gold_quality_body h) = 10"
  by (simp add: check_gold_quality_body_def)

lemma take_7_10:
  "take 7 [a, b, c, d, e, f, g, h, i, j] = [a, b, c, d, e, f, g]"
  by (simp add: numeral_eq_Suc)

lemma silver_prefix_runs:
  "block (take 3 (check_silver_quality_body silver_two_duplicates)) fresh
     = (Inr (), silver_before_failure)"
  by (simp add: check_silver_quality_body_def silver_two_duplicates_def scripted_hook_def
      fresh_def silver_before_failure_def run_quality_assertion_def bind_def print_def
      hook_get_first_def raise_def str_int_0 numeral_3_eq_3)

lemma silver_second_fails:
  "(check_silver_quality_body silver_two_duplicates ! 3) silver_before_failure
     = (Inl (AirflowException (cross_mark
          @ '' No NULL customer IDs in silver.crm_cust_info FAILED: Expected 0, got 2'')),
        silver_at_failure)"
  by (simp add: check_silver_quality_body_def silver_two_duplicates_def scripted_hook_def
      silver_at_failure_def silver_before_failure_def run_quality_assertion_def bind_def print_def
      hook_get_first_def raise_def str_int_0 str_int_2 numeral_3_eq_3)

lemma gold_prefix_runs:
  "block (take 7 (check_gold_quality_body (gold_first_five_pass r))) fresh
     = (Inr (), gold_before_completeness)"
  by (simp add: check_gold_quality_body_def take_7_10 gold_first_five_pass_def scripted_hook_def
      fresh_def gold_before_completeness_def run_quality_assertion_def bind_def print_def
      hook_get_first_def raise_def str_int_0)

lemma gold_completeness_low:
  "(check_gold_quality_body (gold_first_five_pass (Some [PDec 9499 2])) ! 7)
      gold_before_completeness
     = (Inl (AirflowException (cross_mark
          @ '' Data completeness FAILED: 94.99% (expected >= 95%)'')),
        gold_at_completeness_failure)"
  by (simp add: gold_body_7 gold_first_five_pass_def scripted_hook_def
      gold_at_completeness_failure_def gold_before_completeness_def gold_completeness_check_def
      bind_def print_def hook_get_first_def raise_def str_decimal_9499 dec_val_def)

text \<open>
  Claim C2. In both quality gates the statements run in program order and the first
  one that raises ends the task: when the statements before position \<open>k\<close> have run
  without an exception and statement \<open>k\<close> raises, the task raises that same cause and
  its final state is the state in which statement \<open>k\<close> raised. No later assertion
  queries the backend or prints a line.
\<close>

theorem gate_fail_fast:
  "(k < length (check_silver_quality_body (PostgresHook POSTGRES_CONN_ID))
      \<and> block (take k (check_silver_quality_body (PostgresHook POSTGRES_CONN_ID))) w = (Inr (), w1)
      \<and> (check_silver_quality_body (PostgresHook POSTGRES_CONN_ID) ! k) w1 = (Inl cause, w2)
      \<longrightarrow> check_silver_quality_task PostgresHook w = (Inl cause, w2))
   \<and> (k < length (check_gold_quality_body (PostgresHook POSTGRES_CONN_ID))
      \<and> block (take k (check_gold_quality_body (PostgresHook POSTGRES_CONN_ID))) w = (Inr (), w1)
      \<and> (check_gold_quality_body (PostgresHook POSTGRES_CONN_ID) ! k) w1 = (Inl cause, w2)
      \<longrightarrow> check_gold_quality_task PostgresHook w = (Inl cause, w2))"
  by (auto simp add: check_silver_quality_task_def check_gold_quality_task_def intro: block_fail_at)

theorem gate_fail_fast_witness:
  "3 < length (check_silver_quality_body (connection silver_two_duplicates POSTGRES_CONN_ID))
   \<and> block (take 3 (check_silver_quality_body (connection silver_two_duplicates POSTGRES_CONN_ID)))
        fresh = (Inr (), silver_before_failure)
   \<and> (check_silver_quality_body (connection silver_two_duplicates POSTGRES_CONN_ID) ! 3)
        silver_before_failure
      = (Inl (AirflowException (cross_mark
           @ '' No NULL customer IDs in silver.crm_cust_info FAILED: Expected 0, got 2'')),
         silver_at_failure)
   \<and> check_silver_quality_task (connection silver_two_duplicates) fresh
      = (Inl (AirflowException (cross_mark
           @ '' No NULL customer IDs in silver.crm_cust_info FAILED: Expected 0, got 2'')),
         silver_at_failure)
   \<and> 7 < length (check_gold_quality_body
                  (connection (gold_first_five_pass (Some [PDec 9499 2])) POSTGRES_CONN_ID))
   \<and> block (take 7 (check_gold_quality_body
                  (connection (gold_first_five_pass (Some [PDec 9499 2])) POSTGRES_CONN_ID)))
        fresh = (Inr (), gold_before_completeness)
   \<and> (check_gold_quality_body
         (connection (gold_first_five_pass (Some [PDec 9499 2])) POSTGRES_CONN_ID) ! 7)
        gold_before_completeness
      = (Inl (AirflowException (cross_mark
           @ '' Data completeness FAILED: 94.99% (expected >= 95%)'')),
         gold_at_completeness_failure)
   \<and> check_gold_quality_task (connection (gold_first_five_pass (Some [PDec 9499 2]))) fresh
      = (Inl (AirflowException (cross_mark
           @ '' Data completeness FAILED: 94.99% (expected >= 95%)'')),
         gold_at_completeness_failure)"
proof -
  have s: "check_silver_quality_task (connection silver_two_duplicates) fresh
      = (Inl (AirflowException (cross_mark
           @ '' No NULL customer IDs in silver.crm_cust_info FAILED: Expected 0, got 2'')),
         silver_at_failure)"
    using gate_fail_fast [of 3 "connection silver_two_duplicates" fresh silver_before_failure
      "AirflowException (cross_mark
           @ '' No NULL customer IDs in silver.crm_cust_info FAILED: Expected 0, got 2'')"
      silver_at_failure]
      silver_prefix_runs silver_second_fails
    by (simp only: connection_apply silver_body_length) simp
  have g: "check_gold_quality_task (connection (gold_first_five_pass (Some [PDec 9499 2]))) fresh
      = (Inl (AirflowException (cross_mark
           @ '' Data completeness FAILED: 94.99% (expected >= 95%)'')),
         gold_at_completeness_failure)"
    using gate_fail_fast [of 7 "connection (gold_first_five_pass (Some [PDec 9499 2]))" fresh
      gold_before_completeness
      "AirflowException (cross_mark @ '' Data completeness FAILED: 94.99% (expected >= 95%)'')"
      gold_at_completeness_failure]
      gold_prefix_runs gold_completeness_low
    by (simp only: connection_apply gold_body_length) simp
  show ?thesis
    using s g silver_prefix_runs silver_second_fails gold_prefix_runs gold_completeness_low
    by (simp only: connection_apply silver_body_length gold_body_length) simp
qed

lemma completeness_null:
  assumes "get_first pg_hook gold_completeness_query (db w) = (Inr (Some (PNone # rest)), d)"
  shows "fst (gold_completeness_check pg_hook w) =
     Inl (TypeError ([CHR 0x27] @ ''<'' @ [CHR 0x27]
        @ '' not supported between instances of '' @ [CHR 0x27] @ ''NoneType'' @ [CHR 0x27]
        @ '' and '' @ [CHR 0x27] @ ''float'' @ [CHR 0x27]))"
  by (simp add: completeness_result [OF assms])

text \<open>
  Claim C10. When the five count assertions of the Gold gate have passed and the
  completeness query returns a row whose first column is NULL, the task ends with the
  \<^verbatim>\<open>TypeError\<close> of comparing \<^verbatim>\<open>None\<close> with a \<^verbatim>\<open>float\<close>, not with an
  \<^verbatim>\<open>AirflowException\<close>.
\<close>

theorem completeness_null_is_type_error:
  assumes "block (take 7 (check_gold_quality_body (PostgresHook POSTGRES_CONN_ID))) w = (Inr (), w1)"
    and "get_first (PostgresHook POSTGRES_CONN_ID) gold_completeness_query (db w1)
           = (Inr (Some (PNone # rest)), d)"
  shows "fst (check_gold_quality_task PostgresHook w) =
     Inl (TypeError ([CHR 0x27] @ ''<'' @ [CHR 0x27]
        @ '' not supported between instances of '' @ [CHR 0x27] @ ''NoneType'' @ [CHR 0x27]
        @ '' and '' @ [CHR 0x27] @ ''float'' @ [CHR 0x27]))
     \<and> (\<forall>msg. fst (check_gold_quality_task PostgresHook w) \<noteq> Inl (AirflowException msg))"
proof -
  have "fst ((check_gold_quality_body (PostgresHook POSTGRES_CONN_ID) ! 7) w1) =
     Inl (TypeError ([CHR 0x27] @ ''<'' @ [CHR 0x27]
        @ '' not supported between instances of '' @ [CHR 0x27] @ ''NoneType'' @ [CHR 0x27]
        @ '' and '' @ [CHR 0x27] @ ''float'' @ [CHR 0x27]))"
    by (simp only: gold_body_7 completeness_null [OF assms(2)])
  then have "fst (block (check_gold_quality_body (PostgresHook POSTGRES_CONN_ID)) w) =
     Inl (TypeError ([CHR 0x27] @ ''<'' @ [CHR 0x27]
        @ '' not supported between instances of '' @ [CHR 0x27] @ ''NoneType'' @ [CHR 0x27]
        @ '' and '' @ [CHR 0x27] @ ''float'' @ [CHR 0x27]))"
    using block_fail_at_fst [OF _ assms(1)] by (simp add: gold_body_length)
  then show ?thesis
    by (simp add: check_gold_quality_task_def)
qed

theorem completeness_null_is_type_error_witness:
  "block (take 7 (check_gold_quality_body
            (connection (gold_first_five_pass (Some [PNone])) POSTGRES_CONN_ID))) fresh
     = (Inr (), gold_before_completeness)
   \<and> get_first (connection (gold_first_five_pass (Some [PNone])) POSTGRES_CONN_ID)
        gold_completeness_query (db gold_before_completeness) = (Inr (Some [PNone]), 6)
   \<and> fst (check_gold_quality_task (connection (gold_first_five_pass (Some [PNone]))) fresh) =
     Inl (TypeError ([CHR 0x27] @ ''<'' @ [CHR 0x27]
        @ '' not supported between instances of '' @ [CHR 0x27] @ ''NoneType'' @ [CHR 0x27]
        @ '' and '' @ [CHR 0x27] @ ''float'' @ [CHR 0x27]))"
proof -
  have p: "block (take 7 (check_gold_quality_body
            (connection (gold_first_five_pass (Some [PNone])) POSTGRES_CONN_ID))) fresh
     = (Inr (), gold_before_completeness)"
    by (simp only: connection_apply gold_prefix_runs)
  have q: "get_first (connection (gold_first_five_pass (Some [PNone])) POSTGRES_CONN_ID)
        gold_completeness_query (db gold_before_completeness) = (Inr (Some [PNone]), 6)"
    by (simp add: connection_apply gold_first_five_pass_def scripted_hook_def
        gold_before_completeness_def)
  show ?thesis
    using completeness_null_is_type_error
      [where PostgresHook = "connection (gold_first_five_pass (Some [PNone]))", OF p q] p q
    by blast
qed

subsection \<open>The executor\<close>

lemma execute_from_fail:
  assumes "i < length stages" and "length sts = length stages" and "j \<le> i"
    and "block (drop j (take i stages)) w = (Inr (), w1)"
    and "(stages ! i) w1 = (Inl cause, w2)"
  shows "execute_from stages j sts w =
           (\<lparr>statuses = take j sts @ replicate (i - j) Succeeded @ [Failed cause]
                          @ replicate (length stages - Suc i) Skipped,
             outcome = Aborted i cause\<rparr>, w2)"
  using assms
proof (induction "i - j" arbitrary: j sts w)
  case 0
  then have ji: "j = i" by simp
  with 0 have w1: "w1 = w" by simp
  have "take (Suc i) (sts[i := Running, i := Failed cause]) = take i sts @ [Failed cause]"
    using 0(2,3) by (simp add: take_Suc_conv_app_nth)
  then show ?case
    using 0 ji w1 by (simp add: execute_from.simps [of stages i] mark_skipped_def)
next
  case (Suc n)
  then have lt: "j < i" by simp
  then have jl: "j < length stages" using Suc.prems(1) by simp
  have "j < length (take i stages)"
    using lt Suc.prems(1) by simp
  then have "drop j (take i stages) = take i stages ! j # drop (Suc j) (take i stages)"
    by (rule Cons_nth_drop_Suc [symmetric])
  then have dr: "drop j (take i stages) = stages ! j # drop (Suc j) (take i stages)"
    using lt by simp
  obtain r w' where st: "(stages ! j) w = (r, w')" by (cases "(stages ! j) w")
  with Suc.prems(4) dr have r: "r = Inr ()" and rest: "block (drop (Suc j) (take i stages)) w' = (Inr (), w1)"
    by (auto split: sum.splits)
  have n: "n = i - Suc j" using Suc.hyps(2) by simp
  have len: "length (sts[j := Running, j := Succeeded]) = length stages"
    using Suc.prems(2) by simp
  have ih: "execute_from stages (Suc j) (sts[j := Running, j := Succeeded]) w' =
           (\<lparr>statuses = take (Suc j) (sts[j := Running, j := Succeeded])
                          @ replicate (i - Suc j) Succeeded @ [Failed cause]
                          @ replicate (length stages - Suc i) Skipped,
             outcome = Aborted i cause\<rparr>, w2)"
    using Suc.hyps(1) [OF n Suc.prems(1) len _ rest Suc.prems(5)] lt by simp
  have tk: "take (Suc j) (sts[j := Running, j := Succeeded]) = take j sts @ [Succeeded]"
    using jl Suc.prems(2) by (simp add: take_Suc_conv_app_nth)
  have rp: "[Succeeded] @ replicate (i - Suc j) Succeeded = replicate (i - j) Succeeded"
    using lt by (metis Suc_diff_Suc append_Cons append_Nil replicate_Suc)
  have "execute_from stages j sts w
          = execute_from stages (Suc j) (sts[j := Running, j := Succeeded]) w'"
    using jl st r by (simp add: execute_from.simps [of stages j])
  then show ?case
    using ih tk rp by (metis append.assoc)
qed

lemma execute_from_complete:
  assumes "length sts = length stages" and "j \<le> length stages"
    and "block (drop j stages) w = (Inr (), w1)"
  shows "execute_from stages j sts w =
           (\<lparr>statuses = take j sts @ replicate (length stages - j) Succeeded,
             outcome = Completed\<rparr>, w1)"
  using assms
proof (induction "length stages - j" arbitrary: j sts w)
  case 0
  then show ?case by (simp add: execute_from.simps [of stages j])
next
  case (Suc n)
  then have jl: "j < length stages" by simp
  have dr: "drop j stages = stages ! j # drop (Suc j) stages"
    using jl by (rule Cons_nth_drop_Suc [symmetric])
  obtain r w' where st: "(stages ! j) w = (r, w')" by (cases "(stages ! j) w")
  with Suc.prems(3) dr have r: "r = Inr ()" and rest: "block (drop (Suc j) stages) w' = (Inr (), w1)"
    by (auto split: sum.splits)
  have n: "n = length stages - Suc j" using Suc.hyps(2) by simp
  have len: "length (sts[j := Running, j := Succeeded]) = length stages"
    using Suc.prems(1) by simp
  have ih: "execute_from stages (Suc j) (sts[j := Running, j := Succeeded]) w' =
           (\<lparr>statuses = take (Suc j) (sts[j := Running, j := Succeeded])
                          @ replicate (length stages - Suc j) Succeeded,
             outcome = Completed\<rparr>, w1)"
    using Suc.hyps(1) [OF n len _ rest] jl by simp
  have tk: "take (Suc j) (sts[j := Running, j := Succeeded]) = take j sts @ [Succeeded]"
    using jl Suc.prems(1) by (simp add: take_Suc_conv_app_nth)
  have rp: "[Succeeded] @ replicate (length stages - Suc j) Succeeded
              = replicate (length stages - j) Succeeded"
    using jl by (metis Suc_diff_Suc append_Cons append_Nil replicate_Suc)
  have "execute_from stages j sts w
          = execute_from stages (Suc j) (sts[j := Running, j := Succeeded]) w'"
    using jl st r by (simp add: execute_from.simps [of stages j])
  then show ?case
    using ih tk rp by (metis append.assoc)
qed

lemma execute_complete:
  assumes "block stages w = (Inr (), w1)"
  shows "execute stages w =
           (\<lparr>statuses = replicate (length stages) Succeeded, outcome = Completed\<rparr>, w1)"
  using execute_from_complete [of "replicate (length stages) Pending" stages 0 w w1] assms
  by (simp add: execute_def)

lemma execute_aborts:
  assumes "i < length stages"
    and "block (take i stages) w = (Inr (), w1)"
    and "(stages ! i) w1 = (Inl cause, w2)"
  shows "execute stages w =
           (\<lparr>statuses = replicate i Succeeded @ [Failed cause]
                          @ replicate (length stages - Suc i) Skipped,
             outcome = Aborted i cause\<rparr>, w2)"
  using execute_from_fail [of i stages "replicate (length stages) Pending" 0 w w1 cause w2] assms
  by (simp add: execute_def)

lemma pipeline_stages_named:
  "pipeline_stages PostgresHook files =
     [load_bronze_task PostgresHook, load_silver_task PostgresHook,
      check_silver_quality_task PostgresHook, create_gold_views_task PostgresHook files,
      check_gold_quality_task PostgresHook]"
  by (simp add: pipeline_stages_def)

lemma gold_file_path:
  "path_join (path_join SQL_SCRIPTS_DIR ''gold'') ''ddl_gold.sql''
     = ''/opt/airflow/project_root/scripts/gold/ddl_gold.sql''"
  by (simp add: path_join_def SQL_SCRIPTS_DIR_def CONTAINER_PROJECT_ROOT_def)

lemma gold_file_basename:
  "basename ''/opt/airflow/project_root/scripts/gold/ddl_gold.sql'' = ''ddl_gold.sql''"
  by (simp add: basename_def)

lemma take_2_5: "take 2 [a, b, c, d, e] = [a, b]"
  by (simp add: numeral_2_eq_2)

lemma take_4_5: "take 4 [a, b, c, d, e] = [a, b, c, d]"
  by (simp add: numeral_eq_Suc)

lemma nth_2_5: "[a, b, c, d, e] ! 2 = c"
  by (simp add: numeral_2_eq_2)

lemma nth_4_5: "[a, b, c, d, e] ! 4 = e"
  by (simp add: numeral_eq_Suc)

lemma loads_run:
  "block (take 2 [load_bronze_task (connection (scripted_hook [Some [PInt 2]])),
          load_silver_task (connection (scripted_hook [Some [PInt 2]])),
          check_silver_quality_task (connection (scripted_hook [Some [PInt 2]])),
          create_gold_views_task (connection (scripted_hook [Some [PInt 2]])) no_files,
          check_gold_quality_task (connection (scripted_hook [Some [PInt 2]]))]) fresh = (Inr (), after_loads)"
  by (simp add: take_2_5 load_bronze_task_def load_silver_task_def
      connection_def scripted_hook_def fresh_def after_loads_def print_def hook_run_def)

lemma silver_gate_fails:
  "([load_bronze_task (connection (scripted_hook [Some [PInt 2]])),
          load_silver_task (connection (scripted_hook [Some [PInt 2]])),
          check_silver_quality_task (connection (scripted_hook [Some [PInt 2]])),
          create_gold_views_task (connection (scripted_hook [Some [PInt 2]])) no_files,
          check_gold_quality_task (connection (scripted_hook [Some [PInt 2]]))] ! 2) after_loads = (Inl duplicate_customers_cause, at_duplicate_customers)"
  by (simp add: nth_2_5 check_silver_quality_task_def check_silver_quality_body_def
      connection_def scripted_hook_def after_loads_def at_duplicate_customers_def
      duplicate_customers_cause_def run_quality_assertion_def bind_def print_def
      hook_get_first_def raise_def str_int_0 str_int_2 Let_def)

lemma four_stages_run:
  "block (take 4 [load_bronze_task (connection whole_run_low_completeness),
          load_silver_task (connection whole_run_low_completeness),
          check_silver_quality_task (connection whole_run_low_completeness),
          create_gold_views_task (connection whole_run_low_completeness) gold_script_only,
          check_gold_quality_task (connection whole_run_low_completeness)]) fresh = (Inr (), before_gold_gate)"
  by (simp add: take_4_5 load_bronze_task_def load_silver_task_def
      check_silver_quality_task_def check_silver_quality_body_def create_gold_views_task_def
      read_sql_file_def gold_file_path gold_file_basename gold_script_only_def return_def
      connection_def whole_run_low_completeness_def scripted_hook_def fresh_def after_loads_def
      before_gold_gate_def run_quality_assertion_def bind_def print_def hook_run_def
      hook_get_first_def raise_def str_int_0 Let_def)

lemma gold_gate_fails:
  "([load_bronze_task (connection whole_run_low_completeness),
          load_silver_task (connection whole_run_low_completeness),
          check_silver_quality_task (connection whole_run_low_completeness),
          create_gold_views_task (connection whole_run_low_completeness) gold_script_only,
          check_gold_quality_task (connection whole_run_low_completeness)] ! 4) before_gold_gate = (Inl low_completeness_cause, at_low_completeness)"
  by (simp add: nth_4_5 check_gold_quality_task_def check_gold_quality_body_def
      gold_completeness_check_def connection_def whole_run_low_completeness_def
      scripted_hook_def before_gold_gate_def at_low_completeness_def low_completeness_cause_def
      run_quality_assertion_def bind_def print_def hook_get_first_def raise_def str_int_0
      str_decimal_9499 dec_val_def Let_def)

text \<open>
  Claim C1. For every sequence of stages: when the stages before index \<open>i\<close> have run
  in order without an exception and stage \<open>i\<close> raises, the run reports the stages before
  \<open>i\<close> as \<open>Succeeded\<close>, stage \<open>i\<close> as \<open>Failed\<close> with its cause and every later
  stage as \<open>Skipped\<close>; it ends \<open>Aborted\<close> at \<open>i\<close> with that cause, in the state in
  which stage \<open>i\<close> raised, so no later stage has run. The stages of the DAG are the
  Bronze load, the Silver load, the Silver gate, the Gold views and the Gold gate, in
  this order, and the same holds of the DAG's run over these five stages (counted
  from 0).
\<close>

theorem failed_stage_aborts_run:
  "(i < length stages \<and> block (take i stages) w = (Inr (), w1)
      \<and> (stages ! i) w1 = (Inl cause, w2)
      \<longrightarrow> execute stages w =
            (\<lparr>statuses = replicate i Succeeded @ [Failed cause]
                           @ replicate (length stages - Suc i) Skipped,
              outcome = Aborted i cause\<rparr>, w2))
   \<and> pipeline_stages PostgresHook files =
       [load_bronze_task PostgresHook, load_silver_task PostgresHook,
        check_silver_quality_task PostgresHook, create_gold_views_task PostgresHook files,
        check_gold_quality_task PostgresHook]
   \<and> (j < 5
      \<and> block (take j [load_bronze_task PostgresHook, load_silver_task PostgresHook,
            check_silver_quality_task PostgresHook, create_gold_views_task PostgresHook files,
            check_gold_quality_task PostgresHook]) v = (Inr (), v1)
      \<and> ([load_bronze_task PostgresHook, load_silver_task PostgresHook,
            check_silver_quality_task PostgresHook, create_gold_views_task PostgresHook files,
            check_gold_quality_task PostgresHook] ! j) v1 = (Inl reason, v2)
      \<longrightarrow> sql_data_warehouse_pipeline_with_assertions PostgresHook files v =
            (\<lparr>statuses = replicate j Succeeded @ [Failed reason] @ replicate (4 - j) Skipped,
              outcome = Aborted j reason\<rparr>, v2))"
proof (intro conjI impI)
  assume "i < length stages \<and> block (take i stages) w = (Inr (), w1)
      \<and> (stages ! i) w1 = (Inl cause, w2)"
  then show "execute stages w =
            (\<lparr>statuses = replicate i Succeeded @ [Failed cause]
                           @ replicate (length stages - Suc i) Skipped,
              outcome = Aborted i cause\<rparr>, w2)"
    using execute_aborts by blast
next
  show "pipeline_stages PostgresHook files =
       [load_bronze_task PostgresHook, load_silver_task PostgresHook,
        check_silver_quality_task PostgresHook, create_gold_views_task PostgresHook files,
        check_gold_quality_task PostgresHook]"
    by (rule pipeline_stages_named)
next
  let ?dag = "[load_bronze_task PostgresHook, load_silver_task PostgresHook,
            check_silver_quality_task PostgresHook, create_gold_views_task PostgresHook files,
            check_gold_quality_task PostgresHook]"
  assume a: "j < 5 \<and> block (take j ?dag) v = (Inr (), v1) \<and> (?dag ! j) v1 = (Inl reason, v2)"
  then have "j < length ?dag" by simp
  then have "execute ?dag v =
            (\<lparr>statuses = replicate j Succeeded @ [Failed reason]
                           @ replicate (length ?dag - Suc j) Skipped,
              outcome = Aborted j reason\<rparr>, v2)"
    using a execute_aborts by blast
  then show "sql_data_warehouse_pipeline_with_assertions PostgresHook files v =
            (\<lparr>statuses = replicate j Succeeded @ [Failed reason] @ replicate (4 - j) Skipped,
              outcome = Aborted j reason\<rparr>, v2)"
    by (simp add: sql_data_warehouse_pipeline_with_assertions_def pipeline_stages_named)
qed

theorem failed_stage_aborts_run_witness:
  "(2::nat) < 5
   \<and> block (take 2 [load_bronze_task (connection (scripted_hook [Some [PInt 2]])),
          load_silver_task (connection (scripted_hook [Some [PInt 2]])),
          check_silver_quality_task (connection (scripted_hook [Some [PInt 2]])),
          create_gold_views_task (connection (scripted_hook [Some [PInt 2]])) no_files,
          check_gold_quality_task (connection (scripted_hook [Some [PInt 2]]))]) fresh = (Inr (), after_loads)
   \<and> ([load_bronze_task (connection (scripted_hook [Some [PInt 2]])),
          load_silver_task (connection (scripted_hook [Some [PInt 2]])),
          check_silver_quality_task (connection (scripted_hook [Some [PInt 2]])),
          create_gold_views_task (connection (scripted_hook [Some [PInt 2]])) no_files,
          check_gold_quality_task (connection (scripted_hook [Some [PInt 2]]))] ! 2) after_loads = (Inl duplicate_customers_cause, at_duplicate_customers)
   \<and> sql_data_warehouse_pipeline_with_assertions (connection (scripted_hook [Some [PInt 2]]))
        no_files fresh
       = (\<lparr>statuses = [Succeeded, Succeeded, Failed duplicate_customers_cause, Skipped, Skipped],
           outcome = Aborted 2 duplicate_customers_cause\<rparr>, at_duplicate_customers)
   \<and> (4::nat) < 5
   \<and> block (take 4 [load_bronze_task (connection whole_run_low_completeness),
          load_silver_task (connection whole_run_low_completeness),
          check_silver_quality_task (connection whole_run_low_completeness),
          create_gold_views_task (connection whole_run_low_completeness) gold_script_only,
          check_gold_quality_task (connection whole_run_low_completeness)]) fresh = (Inr (), before_gold_gate)
   \<and> ([load_bronze_task (connection whole_run_low_completeness),
          load_silver_task (connection whole_run_low_completeness),
          check_silver_quality_task (connection whole_run_low_completeness),
          create_gold_views_task (connection whole_run_low_completeness) gold_script_only,
          check_gold_quality_task (connection whole_run_low_completeness)] ! 4) before_gold_gate = (Inl low_completeness_cause, at_low_completeness)
   \<and> sql_data_warehouse_pipeline_with_assertions (connection whole_run_low_completeness)
        gold_script_only fresh
       = (\<lparr>statuses = [Succeeded, Succeeded, Succeeded, Succeeded,
                        Failed low_completeness_cause],
           outcome = Aborted 4 low_completeness_cause\<rparr>, at_low_completeness)
   \<and> execute [load_bronze_task (connection whole_run_low_completeness),
          load_silver_task (connection whole_run_low_completeness),
          check_silver_quality_task (connection whole_run_low_completeness),
          create_gold_views_task (connection whole_run_low_completeness) gold_script_only,
          check_gold_quality_task (connection whole_run_low_completeness)] fresh
       = (\<lparr>statuses = [Succeeded, Succeeded, Succeeded, Succeeded,
                        Failed low_completeness_cause],
           outcome = Aborted 4 low_completeness_cause\<rparr>, at_low_completeness)"
proof -
  have a: "sql_data_warehouse_pipeline_with_assertions
        (connection (scripted_hook [Some [PInt 2]])) no_files fresh
       = (\<lparr>statuses = [Succeeded, Succeeded, Failed duplicate_customers_cause, Skipped, Skipped],
           outcome = Aborted 2 duplicate_customers_cause\<rparr>, at_duplicate_customers)"
    using failed_stage_aborts_run
      [where PostgresHook = "connection (scripted_hook [Some [PInt 2]])" and files = no_files
         and j = 2 and v = fresh and ?v1.0 = after_loads
         and reason = duplicate_customers_cause and ?v2.0 = at_duplicate_customers,
         THEN conjunct2, THEN conjunct2]
      loads_run silver_gate_fails
    by (simp add: numeral_eq_Suc)
  have b: "sql_data_warehouse_pipeline_with_assertions (connection whole_run_low_completeness)
        gold_script_only fresh
       = (\<lparr>statuses = [Succeeded, Succeeded, Succeeded, Succeeded,
                        Failed low_completeness_cause],
           outcome = Aborted 4 low_completeness_cause\<rparr>, at_low_completeness)"
    using failed_stage_aborts_run
      [where PostgresHook = "connection whole_run_low_completeness" and files = gold_script_only
         and j = 4 and v = fresh and ?v1.0 = before_gold_gate
         and reason = low_completeness_cause and ?v2.0 = at_low_completeness,
         THEN conjunct2, THEN conjunct2]
      four_stages_run gold_gate_fails
    by (simp add: numeral_eq_Suc)
  have c: "execute [load_bronze_task (connection whole_run_low_completeness),
          load_silver_task (connection whole_run_low_completeness),
          check_silver_quality_task (connection whole_run_low_completeness),
          create_gold_views_task (connection whole_run_low_completeness) gold_script_only,
          check_gold_quality_task (connection whole_run_low_completeness)] fresh
       = (\<lparr>statuses = [Succeeded, Succeeded, Succeeded, Succeeded,
                        Failed low_completeness_cause],
           outcome = Aborted 4 low_completeness_cause\<rparr>, at_low_completeness)"
    using failed_stage_aborts_run
      [where stages = "[load_bronze_task (connection whole_run_low_completeness),
          load_silver_task (connection whole_run_low_completeness),
          check_silver_quality_task (connection whole_run_low_completeness),
          create_gold_views_task (connection whole_run_low_completeness) gold_script_only,
          check_gold_quality_task (connection whole_run_low_completeness)]" and i = 4 and w = fresh and ?w1.0 = before_gold_gate
         and cause = low_completeness_cause and ?w2.0 = at_low_completeness,
         THEN conjunct1]
      four_stages_run gold_gate_fails
    by (simp add: numeral_eq_Suc)
  show ?thesis
    using a b c loads_run silver_gate_fails four_stages_run gold_gate_fails by simp
qed

subsection \<open>Repeated runs\<close>

lemma stable_return: "stable_prog R (return x)"
  by (simp add: stable_prog_def return_def)

lemma stable_raise: "stable_prog R (raise e)"
  by (simp add: stable_prog_def raise_def)

lemma stable_print: "stable_prog R (print line)"
  by (simp add: stable_prog_def print_def alike_def)

lemma stable_hook_run:
  assumes "read_stable R pg_hook"
  shows "stable_prog R (hook_run pg_hook sql)"
  unfolding stable_prog_def
proof (intro allI impI)
  fix w w' :: "'a world"
  assume "alike R w w'"
  then have r: "R (db w) (db w')" and s: "stdout w = stdout w'"
    by (simp_all add: alike_def)
  from assms r have "fst (run pg_hook sql (db w)) = fst (run pg_hook sql (db w'))"
    and "R (snd (run pg_hook sql (db w))) (snd (run pg_hook sql (db w')))"
    unfolding read_stable_def by blast+
  then show "fst (hook_run pg_hook sql w) = fst (hook_run pg_hook sql w')
     \<and> alike R (snd (hook_run pg_hook sql w)) (snd (hook_run pg_hook sql w'))"
    using s by (auto simp add: hook_run_def alike_def split: prod.splits)
qed

lemma stable_hook_get_first:
  assumes "read_stable R pg_hook"
  shows "stable_prog R (hook_get_first pg_hook sql)"
  unfolding stable_prog_def
proof (intro allI impI)
  fix w w' :: "'a world"
  assume "alike R w w'"
  then have r: "R (db w) (db w')" and s: "stdout w = stdout w'"
    by (simp_all add: alike_def)
  from assms r have "fst (get_first pg_hook sql (db w)) = fst (get_first pg_hook sql (db w'))"
    and "R (snd (get_first pg_hook sql (db w))) (snd (get_first pg_hook sql (db w')))"
    unfolding read_stable_def by blast+
  then show "fst (hook_get_first pg_hook sql w) = fst (hook_get_first pg_hook sql w')
     \<and> alike R (snd (hook_get_first pg_hook sql w)) (snd (hook_get_first pg_hook sql w'))"
    using s by (auto simp add: hook_get_first_def alike_def split: prod.splits)
qed

lemma stable_bind:
  assumes "stable_prog R m" and "\<And>x. stable_prog R (f x)"
  shows "stable_prog R (bind m f)"
  unfolding stable_prog_def
proof (intro allI impI)
  fix w w' :: "'a world"
  assume a: "alike R w w'"
  obtain r w1 where m1: "m w = (r, w1)" by (cases "m w")
  obtain r' w1' where m2: "m w' = (r', w1')" by (cases "m w'")
  from assms(1) a m1 m2 have rr: "r = r'" and al: "alike R w1 w1'"
    unfolding stable_prog_def by fastforce+
  show "fst (bind m f w) = fst (bind m f w') \<and> alike R (snd (bind m f w)) (snd (bind m f w'))"
  proof (cases r)
    case (Inl e)
    then show ?thesis using m1 m2 rr al by (simp add: bind_def)
  next
    case (Inr x)
    then show ?thesis
      using m1 m2 rr al assms(2) [of x] unfolding stable_prog_def by (simp add: bind_def)
  qed
qed

lemma stable_block:
  assumes "\<forall>m \<in> set ms. stable_prog R m"
  shows "stable_prog R (block ms)"
  using assms
proof (induction ms)
  case Nil
  then show ?case by (simp add: stable_prog_def)
next
  case (Cons m ms)
  then have hm: "stable_prog R m" and ht: "stable_prog R (block ms)" by simp_all
  show ?case
    unfolding stable_prog_def
  proof (intro allI impI)
    fix w w' :: "'a world"
    assume a: "alike R w w'"
    obtain r w1 where m1: "m w = (r, w1)" by (cases "m w")
    obtain r' w1' where m2: "m w' = (r', w1')" by (cases "m w'")
    from hm a m1 m2 have rr: "r = r'" and al: "alike R w1 w1'"
      unfolding stable_prog_def by fastforce+
    show "fst (block (m # ms) w) = fst (block (m # ms) w')
       \<and> alike R (snd (block (m # ms) w)) (snd (block (m # ms) w'))"
    proof (cases r)
      case (Inl e)
      then show ?thesis using m1 m2 rr al by simp
    next
      case (Inr x)
      then show ?thesis
        using m1 m2 rr al ht unfolding stable_prog_def by simp
    qed
  qed
qed

lemma stable_run_quality_assertion:
  assumes "read_stable R pg_hook"
  shows "stable_prog R (run_quality_assertion pg_hook test_name query ev)"
  unfolding run_quality_assertion_def Let_def
  by (intro stable_bind stable_print stable_hook_get_first assms)
     (simp add: stable_raise stable_print)

lemma stable_gold_completeness_check:
  assumes "read_stable R pg_hook"
  shows "stable_prog R (gold_completeness_check pg_hook)"
  unfolding gold_completeness_check_def Let_def
  by (intro stable_bind stable_print stable_hook_get_first assms)
     (simp add: stable_raise stable_print split: sum.splits bool.splits)

lemma stable_read_sql_file: "stable_prog R (read_sql_file files file_path)"
  unfolding read_sql_file_def Let_def
  by (simp add: stable_bind stable_print stable_return stable_raise
      split: sum.splits exn.splits)

lemma stable_load_bronze_task:
  assumes "read_stable R (PostgresHook POSTGRES_CONN_ID)"
  shows "stable_prog R (load_bronze_task PostgresHook)"
  unfolding load_bronze_task_def Let_def
  by (rule stable_block) (simp add: stable_print stable_hook_run assms)

lemma stable_load_silver_task:
  assumes "read_stable R (PostgresHook POSTGRES_CONN_ID)"
  shows "stable_prog R (load_silver_task PostgresHook)"
  unfolding load_silver_task_def Let_def
  by (rule stable_block) (simp add: stable_print stable_hook_run assms)

lemma stable_check_silver_quality_task:
  assumes "read_stable R (PostgresHook POSTGRES_CONN_ID)"
  shows "stable_prog R (check_silver_quality_task PostgresHook)"
  unfolding check_silver_quality_task_def Let_def check_silver_quality_body_def
  by (rule stable_block) (simp add: stable_print stable_run_quality_assertion assms)

lemma stable_create_gold_views_task:
  assumes "read_stable R (PostgresHook POSTGRES_CONN_ID)"
  shows "stable_prog R (create_gold_views_task PostgresHook files)"
  unfolding create_gold_views_task_def Let_def
  by (intro stable_bind stable_read_sql_file stable_block)
     (simp add: stable_print stable_hook_run assms)

lemma stable_check_gold_quality_task:
  assumes "read_stable R (PostgresHook POSTGRES_CONN_ID)"
  shows "stable_prog R (check_gold_quality_task PostgresHook)"
  unfolding check_gold_quality_task_def Let_def check_gold_quality_body_def
  by (rule stable_block)
     (simp add: stable_print stable_run_quality_assertion
        stable_gold_completeness_check assms)

lemma stable_pipeline_stages:
  assumes "read_stable R (PostgresHook POSTGRES_CONN_ID)"
  shows "\<forall>m \<in> set (pipeline_stages PostgresHook files). stable_prog R m"
  by (simp add: pipeline_stages_def stable_load_bronze_task stable_load_silver_task
      stable_check_silver_quality_task stable_create_gold_views_task
      stable_check_gold_quality_task assms)

lemma execute_from_alike:
  assumes "\<forall>m \<in> set stages. stable_prog R m" and "alike R w w'"
  shows "fst (execute_from stages i sts w) = fst (execute_from stages i sts w')
       \<and> alike R (snd (execute_from stages i sts w)) (snd (execute_from stages i sts w'))"
  using assms(2)
proof (induction "length stages - i" arbitrary: i sts w w')
  case 0
  then show ?case by (simp add: execute_from.simps [of stages i])
next
  case (Suc n)
  then have il: "i < length stages" by simp
  then have hm: "stable_prog R (stages ! i)" using assms(1) by simp
  obtain r w1 where m1: "(stages ! i) w = (r, w1)" by (cases "(stages ! i) w")
  obtain r' w1' where m2: "(stages ! i) w' = (r', w1')" by (cases "(stages ! i) w'")
  from hm Suc.prems m1 m2 have rr: "r = r'" and al: "alike R w1 w1'"
    unfolding stable_prog_def by fastforce+
  show ?case
  proof (cases r)
    case (Inl e)
    have s1: "(stages ! i) w = (Inl e, w1)" and s2: "(stages ! i) w' = (Inl e, w1')"
      using m1 m2 rr Inl by simp_all
    show ?thesis
      using il al
      by (simp add: execute_from.simps [of stages i] s1 s2)
  next
    case (Inr x)
    have n: "n = length stages - Suc i" using Suc.hyps(2) by simp
    have s1: "(stages ! i) w = (Inr (), w1)" and s2: "(stages ! i) w' = (Inr (), w1')"
      using m1 m2 rr Inr by simp_all
    show ?thesis
      using il Suc.hyps(1) [OF n al, of "sts[i := Running, i := Succeeded]"]
      by (simp add: execute_from.simps [of stages i] s1 s2)
  qed
qed

text \<open>
  Claim C8. Two executions of the pipeline through a deterministic, read-stable hook,
  started on related backends with the same output so far, produce the same report:
  the same stage statuses, the same terminal outcome and the same printed lines (the
  assertion outcomes, in order).
\<close>

theorem same_executor_same_report:
  assumes "read_stable R (PostgresHook POSTGRES_CONN_ID)"
    and "R (db w) (db w')"
    and "stdout w = stdout w'"
  shows "fst (sql_data_warehouse_pipeline_with_assertions PostgresHook files w)
           = fst (sql_data_warehouse_pipeline_with_assertions PostgresHook files w')
       \<and> stdout (snd (sql_data_warehouse_pipeline_with_assertions PostgresHook files w))
           = stdout (snd (sql_data_warehouse_pipeline_with_assertions PostgresHook files w'))"
proof -
  have "alike R w w'"
    using assms(2,3) by (simp add: alike_def)
  then show ?thesis
    using execute_from_alike
      [OF stable_pipeline_stages [where PostgresHook = PostgresHook and files = files,
           OF assms(1)], of w w' 0]
    by (simp add: sql_data_warehouse_pipeline_with_assertions_def execute_def alike_def)
qed

lemma session_hook_read_stable: "read_stable same_data session_hook"
  by (simp add: read_stable_def same_data_def session_hook_def)

theorem same_executor_same_report_witness:
  "read_stable same_data (connection session_hook POSTGRES_CONN_ID)
   \<and> same_data (db first_session) (db later_session)
   \<and> stdout first_session = stdout later_session
   \<and> fst (sql_data_warehouse_pipeline_with_assertions (connection session_hook)
            no_files first_session)
       = fst (sql_data_warehouse_pipeline_with_assertions (connection session_hook)
            no_files later_session)
   \<and> stdout (snd (sql_data_warehouse_pipeline_with_assertions (connection session_hook)
            no_files first_session))
       = stdout (snd (sql_data_warehouse_pipeline_with_assertions (connection session_hook)
            no_files later_session))"
proof -
  have a: "read_stable same_data (connection session_hook POSTGRES_CONN_ID)"
    by (simp add: connection_apply session_hook_read_stable)
  have b: "same_data (db first_session) (db later_session)"
    by (simp add: same_data_def first_session_def later_session_def)
  have c: "stdout first_session = stdout later_session"
    by (simp add: first_session_def later_session_def)
  show ?thesis
    using same_executor_same_report
      [where PostgresHook = "connection session_hook" and files = no_files, OF a b c] a b c
    by blast
qed

end
